theory Spec2Isabelle
  imports Complex_Main "HOL-Library.Monad_Syntax"
begin

section \<open>Vectors and the shading-language builtins used by the fragment shader\<close>

text \<open>
  The fragment shader works on 32-bit floats. The main embedding works on exact reals:
  every \<open>float\<close> is a \<^typ>\<open>real\<close>, every \<open>int\<close> an \<^typ>\<open>int\<close> (the loop
  counter never exceeds \<open>maxRaymarchStepCount + 1\<close>, so it stays in the 32-bit range whenever
  \<open>maxRaymarchStepCount < 2^31 - 1\<close>). Two kinds of operation are made explicit.
  \<^item> A builtin called where the shading language leaves its result undefined (\<open>pow\<close> with
    a negative base, or with a zero base and a non-positive exponent; \<open>smoothstep\<close> with
    \<open>edge0 \<ge> edge1\<close>) returns whatever the platform returns there. The platform's choice
    is part of the environment of the shader (the fields \<open>powUndefined\<close> and
    \<open>smoothstepUndefined\<close> below), so a theorem about an arbitrary environment holds on
    every platform.
  \<^item> An operation that has no real value (a division by zero, the direction of the zero
    vector, a texel fetch at coordinates that \<open>%\<close> leaves undefined) returns \<open>None\<close>,
    and \<open>None\<close> propagates to the result of the function that used the value.

  The slab clipper is modelled a second time with binary32 rounding after every operation,
  for the one property of it that rounding decides.
\<close>

datatype vec3 = Vec3 (vx: real) (vy: real) (vz: real)

datatype vec4 = Vec4 real real real real

definition vadd :: "vec3 \<Rightarrow> vec3 \<Rightarrow> vec3" where
  "vadd a b = Vec3 (vx a + vx b) (vy a + vy b) (vz a + vz b)"

definition vsub :: "vec3 \<Rightarrow> vec3 \<Rightarrow> vec3" where
  "vsub a b = Vec3 (vx a - vx b) (vy a - vy b) (vz a - vz b)"

definition vscale :: "vec3 \<Rightarrow> real \<Rightarrow> vec3" where
  "vscale a k = Vec3 (vx a * k) (vy a * k) (vz a * k)"

definition length_vec3 :: "vec3 \<Rightarrow> real" where
  "length_vec3 a = sqrt (vx a * vx a + vy a * vy a + vz a * vz a)"

text \<open>\<open>normalize(v)\<close> is \<open>v / length(v)\<close>; the zero vector has no direction.\<close>

definition normalize_vec3 :: "vec3 \<Rightarrow> vec3 option" where
  "normalize_vec3 a =
     (if length_vec3 a = 0 then None
      else Some (Vec3 (vx a / length_vec3 a) (vy a / length_vec3 a) (vz a / length_vec3 a)))"

definition clamp :: "real \<Rightarrow> real \<Rightarrow> real \<Rightarrow> real" where
  "clamp v lo hi = min (max v lo) hi"

definition mix :: "vec3 \<Rightarrow> vec3 \<Rightarrow> real \<Rightarrow> vec3" where
  "mix a b t = vadd (vscale a (1 - t)) (vscale b t)"

section \<open>Uniforms\<close>

text \<open>
  The environment of the fragment shader: the uniforms that the modelled functions read,
  the two textures as functions (\<open>noiseTexture\<close> gives the red channel of
  \<open>texture(noiseTexture, p)\<close>, \<open>blueNoise\<close> the red channel of
  \<open>texelFetch(blueNoise, ivec2(i, j), 0)\<close>), and the platform's results for \<open>pow\<close> and
  \<open>smoothstep\<close> where the language leaves them undefined.
\<close>

record uniforms =
  noiseTexture :: "vec3 \<Rightarrow> real"
  blueNoise :: "int \<Rightarrow> int \<Rightarrow> real"
  powUndefined :: "real \<Rightarrow> real \<Rightarrow> real"
  smoothstepUndefined :: "real \<Rightarrow> real \<Rightarrow> real \<Rightarrow> real"
  curTimeSeconds :: real
  fogMinY :: real
  fogMaxY :: real
  baseRaymarchStepCount :: int
  maxRaymarchStepCount :: int
  baseMaxRayLength :: real
  minStepLength :: real
  maxDensity :: real
  fogColorHighDensity :: vec3
  fogColorLowDensity :: vec3
  blueNoiseResolution :: int
  fogFadeOutPow :: real
  fogFadeOutRangeY :: real
  fogDensityMultiplier :: real
  heightFogStartY :: real
  heightFogEndY :: real
  heightFogFactor :: real
  noiseBias :: real
  noisePow :: real
  noiseMovementPerSecond :: "real \<times> real"
  postDensityMultiplier :: real
  postDensityPow :: real
  globalScale :: real

text \<open>
  \<open>smoothstep(edge0, edge1, x)\<close>: Hermite interpolation of
  \<open>clamp((x - edge0) / (edge1 - edge0), 0, 1)\<close>; undefined for \<open>edge0 \<ge> edge1\<close>.
\<close>

definition smoothstep :: "uniforms \<Rightarrow> real \<Rightarrow> real \<Rightarrow> real \<Rightarrow> real" where
  "smoothstep u edge0 edge1 v =
     (if edge0 \<ge> edge1 then smoothstepUndefined u edge0 edge1 v
      else let t = clamp ((v - edge0) / (edge1 - edge0)) 0 1 in t * t * (3 - 2 * t))"

text \<open>
  \<open>pow(x, y)\<close>: undefined for \<open>x < 0\<close>, and for \<open>x = 0\<close> with \<open>y \<le> 0\<close>.
\<close>

definition pow :: "uniforms \<Rightarrow> real \<Rightarrow> real \<Rightarrow> real" where
  "pow u b e = (if b < 0 \<or> (b = 0 \<and> e \<le> 0) then powUndefined u b e else b powr e)"

section \<open>The slab clipper\<close>

text \<open>
  \<open>intersectRayXZPlane\<close>: the distance along the ray at which it meets the plane
  \<open>y = planeDistance\<close>. The division by \<open>rayDirection.y\<close> has no value for a ray
  parallel to the plane.
\<close>

definition intersectRayXZPlane :: "vec3 \<Rightarrow> vec3 \<Rightarrow> real \<Rightarrow> real option" where
  "intersectRayXZPlane rayOrigin rayDirection planeDistance =
     (if vy rayDirection = 0 then None
      else Some (- (vy rayOrigin - planeDistance) / vy rayDirection))"

text \<open>
  The body shared by the four conditionals of \<open>clipRayEndpoints\<close>:
  \<open>float t = intersectRayXZPlane(startPos, rayDir, plane); ... = startPos + rayDir * t\<close>.
  \<open>rayDir\<close> is computed once before the conditionals and is only read here, so an undefined
  \<open>rayDir\<close> matters only when one of the conditionals fires.
\<close>

definition movedToPlane :: "vec3 option \<Rightarrow> vec3 \<Rightarrow> real \<Rightarrow> vec3 option" where
  "movedToPlane rayDir startPos plane =
     do {
       d \<leftarrow> rayDir;
       t \<leftarrow> intersectRayXZPlane startPos d plane;
       Some (vadd startPos (vscale d t))
     }"

text \<open>
  \<open>clipRayEndpoints\<close> updates both endpoints in place; the model returns the pair
  \<open>(startPos, endPos)\<close> after the call.
\<close>

definition clipRayEndpoints :: "uniforms \<Rightarrow> vec3 \<Rightarrow> vec3 \<Rightarrow> (vec3 \<times> vec3) option" where
  "clipRayEndpoints u startPos endPos =
     (if (vy startPos < fogMinY u \<and> vy endPos < fogMinY u)
         \<or> (vy startPos > fogMaxY u \<and> vy endPos > fogMaxY u)
      then Some (endPos, endPos)
      else
        let rayDir = normalize_vec3 (vsub endPos startPos) in
        do {
          startPos1 \<leftarrow> (if vy startPos < fogMinY u
                         then movedToPlane rayDir startPos (fogMinY u) else Some startPos);
          endPos1 \<leftarrow> (if vy endPos < fogMinY u
                       then movedToPlane rayDir startPos1 (fogMinY u) else Some endPos);
          endPos2 \<leftarrow> (if vy endPos1 > fogMaxY u
                       then movedToPlane rayDir startPos1 (fogMaxY u) else Some endPos1);
          startPos2 \<leftarrow> (if vy startPos1 > fogMaxY u
                         then movedToPlane rayDir startPos1 (fogMaxY u) else Some startPos1);
          Some (startPos2, endPos2)
        })"

section \<open>The slab clipper in binary32\<close>

text \<open>
  The same statements with every arithmetic operation rounded to binary32 (24 significant
  bits, round to nearest, ties to even). \<open>round32\<close> covers the normal range only; the
  magnitudes that occur below lie between \<open>2^-21\<close> and \<open>2^14\<close>.
\<close>

definition rne :: "real \<Rightarrow> int" where
  "rne y =
     (let f = \<lfloor>y\<rfloor> in
      if y - of_int f < 1 / 2 then f
      else if 1 / 2 < y - of_int f then f + 1
      else if even f then f else f + 1)"

definition round32 :: "real \<Rightarrow> real" where
  "round32 x =
     (if x = 0 then 0
      else let e = \<lfloor>log 2 \<bar>x\<bar>\<rfloor>
           in of_int (rne (x / 2 powi (e - 23))) * 2 powi (e - 23))"

definition vadd32 :: "vec3 \<Rightarrow> vec3 \<Rightarrow> vec3" where
  "vadd32 a b = Vec3 (round32 (vx a + vx b)) (round32 (vy a + vy b)) (round32 (vz a + vz b))"

definition vsub32 :: "vec3 \<Rightarrow> vec3 \<Rightarrow> vec3" where
  "vsub32 a b = Vec3 (round32 (vx a - vx b)) (round32 (vy a - vy b)) (round32 (vz a - vz b))"

definition vscale32 :: "vec3 \<Rightarrow> real \<Rightarrow> vec3" where
  "vscale32 a k = Vec3 (round32 (vx a * k)) (round32 (vy a * k)) (round32 (vz a * k))"

definition length_vec3_32 :: "vec3 \<Rightarrow> real" where
  "length_vec3_32 a =
     round32 (sqrt (round32 (round32 (round32 (vx a * vx a) + round32 (vy a * vy a))
                             + round32 (vz a * vz a))))"

definition normalize_vec3_32 :: "vec3 \<Rightarrow> vec3 option" where
  "normalize_vec3_32 a =
     (if length_vec3_32 a = 0 then None
      else Some (Vec3 (round32 (vx a / length_vec3_32 a)) (round32 (vy a / length_vec3_32 a))
                      (round32 (vz a / length_vec3_32 a))))"

definition intersectRayXZPlane32 :: "vec3 \<Rightarrow> vec3 \<Rightarrow> real \<Rightarrow> real option" where
  "intersectRayXZPlane32 rayOrigin rayDirection planeDistance =
     (if vy rayDirection = 0 then None
      else Some (round32 (- round32 (vy rayOrigin - planeDistance) / vy rayDirection)))"

definition movedToPlane32 :: "vec3 option \<Rightarrow> vec3 \<Rightarrow> real \<Rightarrow> vec3 option" where
  "movedToPlane32 rayDir startPos plane =
     do {
       d \<leftarrow> rayDir;
       t \<leftarrow> intersectRayXZPlane32 startPos d plane;
       Some (vadd32 startPos (vscale32 d t))
     }"

definition clipRayEndpoints32 :: "uniforms \<Rightarrow> vec3 \<Rightarrow> vec3 \<Rightarrow> (vec3 \<times> vec3) option" where
  "clipRayEndpoints32 u startPos endPos =
     (if (vy startPos < fogMinY u \<and> vy endPos < fogMinY u)
         \<or> (vy startPos > fogMaxY u \<and> vy endPos > fogMaxY u)
      then Some (endPos, endPos)
      else
        let rayDir = normalize_vec3_32 (vsub32 endPos startPos) in
        do {
          startPos1 \<leftarrow> (if vy startPos < fogMinY u
                         then movedToPlane32 rayDir startPos (fogMinY u) else Some startPos);
          endPos1 \<leftarrow> (if vy endPos < fogMinY u
                       then movedToPlane32 rayDir startPos1 (fogMinY u) else Some endPos);
          endPos2 \<leftarrow> (if vy endPos1 > fogMaxY u
                       then movedToPlane32 rayDir startPos1 (fogMaxY u) else Some endPos1);
          startPos2 \<leftarrow> (if vy startPos1 > fogMaxY u
                         then movedToPlane32 rayDir startPos1 (fogMaxY u) else Some startPos1);
          Some (startPos2, endPos2)
        })"

section \<open>The density field\<close>

definition sampleFogFromNoise :: "uniforms \<Rightarrow> vec3 \<Rightarrow> real" where
  "sampleFogFromNoise u worldPos = noiseTexture u (vscale worldPos 0.006) * 2 - 1"

definition OCTAVE_COUNT :: nat where
  "OCTAVE_COUNT = 6"

definition LODWeights :: "real list" where
  "LODWeights = [1, 0.3, 0.2, 0.1, 0.06, 0.035]"

definition LODScales :: "real list" where
  "LODScales = [0.1, 0.3, 0.6, 1.2, 2.2, 4.1]"

text \<open>
  \<open>sampleFogDensityLOD\<close> returns the weighted sample together with the updated
  \<open>totalSampledMagnitude\<close> (an \<open>inout\<close> parameter). It is only called with
  \<open>lod < 6\<close>, inside both tables.
\<close>

definition sampleFogDensityLOD :: "uniforms \<Rightarrow> vec3 \<Rightarrow> real \<Rightarrow> nat \<Rightarrow> real \<times> real" where
  "sampleFogDensityLOD u worldPos totalSampledMagnitude lod =
     (let weight = LODWeights ! lod;
          scale = (LODScales ! lod) * globalScale u;
          noise = sampleFogFromNoise u (vscale worldPos scale)
      in (noise * weight, totalSampledMagnitude + weight))"

definition computeFadeOutYFactor :: "uniforms \<Rightarrow> real \<Rightarrow> real" where
  "computeFadeOutYFactor u y =
     1 - pow u (smoothstep u (fogMaxY u - fogFadeOutRangeY u) (fogMaxY u) y) (fogFadeOutPow u)"

text \<open>
  The octave loop of \<open>sampleFogDensity\<close>, started with the noise accumulated so far and
  \<open>totalSampledMagnitude = 0\<close>; it returns both variables.
\<close>

definition noiseOctaves :: "uniforms \<Rightarrow> vec3 \<Rightarrow> real \<Rightarrow> real \<times> real" where
  "noiseOctaves u worldPos noise0 =
     fold (\<lambda>octave (noise, total).
             let (v, total') = sampleFogDensityLOD u worldPos total octave
             in (noise + v, total'))
       [0..<OCTAVE_COUNT] (noise0, 0)"

text \<open>
  \<open>sampleFogDensity\<close>. The \<open>out\<close> parameter \<open>gradient\<close> is never written by the
  source and never read on the compiled path (\<open>DO_LIGHTING\<close> is 0), so the model leaves
  it out.
\<close>

definition sampleFogDensity :: "uniforms \<Rightarrow> vec3 \<Rightarrow> real" where
  "sampleFogDensity u worldPos0 =
     (let worldPos = vadd worldPos0
            (vscale (Vec3 (fst (noiseMovementPerSecond u)) 0 (snd (noiseMovementPerSecond u)))
               (curTimeSeconds u));
          (noise1, totalSampledMagnitude) = noiseOctaves u worldPos (noiseBias u);
          noise2 = noise1 * 0.5 + 0.5;
          noise3 = clamp noise2 (- 1) 1;
          noise4 = pow u noise3 (noisePow u);
          noise5 = (if vy worldPos \<le> heightFogEndY u
                    then let noiseFactor =
                               1 - smoothstep u (heightFogStartY u) (heightFogEndY u) (vy worldPos)
                         in noise4 + noiseFactor * heightFogFactor u
                    else noise4);
          fadeOutFactor = computeFadeOutYFactor u (vy worldPos)
      in noise5 * fadeOutFactor)"

section \<open>The integrator\<close>

text \<open>\<open>computeColor\<close> with \<open>DO_LIGHTING\<close> 0: the function returns the base fog colour.\<close>

definition computeColor :: "uniforms \<Rightarrow> vec3 \<Rightarrow> real \<Rightarrow> vec3" where
  "computeColor u curPos dens =
     mix (fogColorLowDensity u) (fogColorHighDensity u) (clamp (dens * 12) 0 1)"

text \<open>
  \<open>sampleOneStep\<close> takes the accumulated colour and density (its \<open>inout\<close> parameters)
  and returns their values after the call.
\<close>

definition sampleOneStep ::
  "uniforms \<Rightarrow> real \<Rightarrow> real \<Rightarrow> vec3 \<Rightarrow> vec3 \<Rightarrow> vec3 \<times> real \<Rightarrow> vec3 \<times> real" where
  "sampleOneStep u totalDist stepSize start dir acc =
     (let (accColor, accDensity) = acc;
          curPos = vadd start (vscale dir totalDist);
          rawDensity = sampleFogDensity u curPos;
          dens = rawDensity * stepSize * fogDensityMultiplier u
      in if rawDensity > 0.01 then
           let color = computeColor u curPos rawDensity;
               remainingOpacity = 1 - accDensity
           in (vadd accColor (vscale (vscale color dens) remainingOpacity),
               accDensity + dens * remainingOpacity)
         else (accColor, accDensity))"

text \<open>
  The locals of \<open>march\<close> that are fixed before the stepping loop starts, and the locals
  that the loop updates.
\<close>

record march_init =
  startPos :: vec3
  rayDir :: vec3
  rayLength :: real
  maxRayLength :: real
  baseStepLength :: real
  jitter :: real

record march_state =
  density :: real
  totalDistance :: real
  totalIters :: int
  accumulatedColor :: vec3

text \<open>
  \<open>texelFetch(blueNoise, screenCoord % blueNoiseResolution, 0).r\<close>. The operator \<open>%\<close>
  is undefined for a zero divisor and for negative operands.
\<close>

definition blueNoiseSample :: "uniforms \<Rightarrow> int \<times> int \<Rightarrow> real option" where
  "blueNoiseSample u screenCoord =
     (if blueNoiseResolution u \<le> 0 \<or> fst screenCoord < 0 \<or> snd screenCoord < 0 then None
      else Some (blueNoise u (fst screenCoord mod blueNoiseResolution u)
                             (snd screenCoord mod blueNoiseResolution u)))"

text \<open>
  The part of \<open>march\<close> between the early return and the loop: ray direction and length
  of the segment it is given (the endpoints as \<open>clipRayEndpoints\<close> left them), the cap on
  the ray length, the base step length and the jitter.
\<close>

definition marchInit :: "uniforms \<Rightarrow> vec3 \<Rightarrow> vec3 \<Rightarrow> int \<times> int \<Rightarrow> march_init option" where
  "marchInit u start end screenCoord =
     do {
       dir \<leftarrow> normalize_vec3 (vsub end start);
       let len = length_vec3 (vsub end start);
           maxLen = baseMaxRayLength u + min (len * 0.2) 1500;
           len' = (if len > maxLen then maxLen else len)
       in do {
         baseStep \<leftarrow> (if baseRaymarchStepCount u = 0 then None
                       else Some (len' / real_of_int (baseRaymarchStepCount u)));
         noise \<leftarrow> blueNoiseSample u screenCoord;
         let jit = (noise - 0.5) * 0.1
         in Some \<lparr>startPos = vadd start (vscale dir jit), rayDir = dir, rayLength = len',
                   maxRayLength = maxLen, baseStepLength = baseStep, jitter = jit\<rparr>
       }
     }"

text \<open>The step length of one loop iteration; it is the same in every iteration.\<close>

definition stepLength :: "uniforms \<Rightarrow> march_init \<Rightarrow> real" where
  "stepLength u m = max (baseStepLength m) (minStepLength u) + jitter m * 0.2"

text \<open>
  One pass through the loop body once the safety check has passed: count the iteration,
  take one sample with the step length, advance the distance.
\<close>

definition loopBody :: "uniforms \<Rightarrow> march_init \<Rightarrow> march_state \<Rightarrow> march_state" where
  "loopBody u m st =
     (let (col, dens) = sampleOneStep u (totalDistance st) (stepLength u m) (startPos m)
                          (rayDir m) (accumulatedColor st, density st)
      in \<lparr>density = dens,
          totalDistance = totalDistance st + stepLength u m,
          totalIters = totalIters st + 1,
          accumulatedColor = col\<rparr>)"

text \<open>
  The stepping loop. It returns the states after each completed iteration, in order, and
  the way the loop was left: the loop condition failed (\<open>Exhausted\<close>), the \<open>break\<close> on
  the density threshold (\<open>Saturated\<close>), or the \<open>return\<close> of the safety check
  (\<open>IterationCapped\<close>).
\<close>

datatype loop_exit = Exhausted | Saturated | IterationCapped

function marchLoop :: "uniforms \<Rightarrow> march_init \<Rightarrow> march_state \<Rightarrow> march_state list \<times> loop_exit" where
  "marchLoop u m st =
     (if totalDistance st < rayLength m then
        if totalIters st > maxRaymarchStepCount u then ([], IterationCapped)
        else
          let st' = loopBody u m st
          in if density st' \<ge> maxDensity u - 0.01 then ([st'], Saturated)
             else (case marchLoop u m st' of (tr, ex) \<Rightarrow> (st' # tr, ex))
      else ([], Exhausted))"
  by pat_completeness auto
termination
proof (relation "measure (\<lambda>(u, m, st). nat (maxRaymarchStepCount u + 1 - totalIters st))")
  show "wf (measure (\<lambda>(u, m, st). nat (maxRaymarchStepCount u + 1 - totalIters st)))"
    by simp
next
  fix u m st st'
  assume "\<not> maxRaymarchStepCount u < totalIters st" and "st' = loopBody u m st"
  then show "((u, m, st'), (u, m, st))
               \<in> measure (\<lambda>(u, m, st). nat (maxRaymarchStepCount u + 1 - totalIters st))"
    by (auto simp: loopBody_def split: prod.splits)
qed

declare marchLoop.simps [simp del]

definition initialState :: march_state where
  "initialState = \<lparr>density = 0, totalDistance = 0, totalIters = 0,
                    accumulatedColor = Vec3 0 0 0\<rparr>"

text \<open>
  The position \<open>curPos\<close> that \<open>sampleOneStep\<close> samples in the iteration that starts
  in state \<open>st\<close>.
\<close>

definition curPos :: "march_init \<Rightarrow> march_state \<Rightarrow> vec3" where
  "curPos m st = vadd (startPos m) (vscale (rayDir m) (totalDistance st))"

definition clamp_vec4 :: "vec4 \<Rightarrow> real \<Rightarrow> real \<Rightarrow> vec4" where
  "clamp_vec4 v lo hi =
     (case v of Vec4 a b c d \<Rightarrow> Vec4 (clamp a lo hi) (clamp b lo hi) (clamp c lo hi) (clamp d lo hi))"

text \<open>
  The rest of \<open>march\<close> once its locals are set: the stepping loop from the initial state,
  then either the sentinel of the safety check or the shaped and clamped result.
\<close>

definition marchFinish :: "uniforms \<Rightarrow> march_init \<Rightarrow> vec4" where
  "marchFinish u m =
     (case marchLoop u m initialState of
        (tr, IterationCapped) \<Rightarrow> Vec4 1 1 0 1
      | (tr, _) \<Rightarrow>
          let st = last (initialState # tr);
              d = pow u (density st * postDensityMultiplier u) (postDensityPow u)
          in clamp_vec4
               (Vec4 (vx (accumulatedColor st)) (vy (accumulatedColor st))
                     (vz (accumulatedColor st)) d) 0 1)"

definition march :: "uniforms \<Rightarrow> vec3 \<Rightarrow> vec3 \<Rightarrow> int \<times> int \<Rightarrow> vec4 option" where
  "march u start0 end0 screenCoord =
     do {
       (start1, end1) \<leftarrow> clipRayEndpoints u start0 end0;
       if start1 = end1 then Some (Vec4 0 0 0 0)
       else do {
         m \<leftarrow> marchInit u start1 end1 screenCoord;
         Some (marchFinish u m)
       }
     }"

section \<open>Reference configurations\<close>

text \<open>
  The default uniform values set by the \<open>VolumetricMaterial\<close> constructor. The two
  textures are loaded at run time; here both are uniformly mid-grey, so that every noise
  octave contributes \<open>0.5 * 2 - 1 = 0\<close> and the jitter is \<open>0\<close>. The platform is one on
  which \<open>pow\<close> of a negative base is \<open>pow\<close> of its absolute value, \<open>pow\<close> of a zero
  base with a non-positive exponent is 1, and \<open>smoothstep\<close> with \<open>edge0 \<ge> edge1\<close> is
  the step at \<open>edge0\<close>.
\<close>

definition defaultUniforms :: uniforms where
  "defaultUniforms =
     \<lparr>noiseTexture = (\<lambda>p. 0.5), blueNoise = (\<lambda>i j. 0.5),
      powUndefined = (\<lambda>b e. if b = 0 then 1 else \<bar>b\<bar> powr e),
      smoothstepUndefined = (\<lambda>edge0 edge1 v. if v < edge0 then 0 else 1),
      curTimeSeconds = 0,
      fogMinY = - 40, fogMaxY = 4.4, baseRaymarchStepCount = 80, maxRaymarchStepCount = 400,
      baseMaxRayLength = 300, minStepLength = 0.2, maxDensity = 1,
      fogColorHighDensity = Vec3 0.32 0.35 0.38, fogColorLowDensity = Vec3 0.9 0.9 0.9,
      blueNoiseResolution = 256, fogFadeOutPow = 1, fogFadeOutRangeY = 1.5,
      fogDensityMultiplier = 0.086, heightFogStartY = - 10, heightFogEndY = 8,
      heightFogFactor = 0.1852, noiseBias = 0.485, noisePow = 3,
      noiseMovementPerSecond = (1.2, 0.8), postDensityMultiplier = 1.2, postDensityPow = 1,
      globalScale = 1\<rparr>"

text \<open>
  The locals of \<open>march\<close> before the loop for the default configuration and the segment
  from \<open>(0, 4.4, 0)\<close> to \<open>(0, -40, 0)\<close>, which is what the clipper leaves of the segment
  from \<open>(0, 10, 0)\<close> to \<open>(0, -50, 0)\<close>.
\<close>

definition defaultInit :: march_init where
  "defaultInit = \<lparr>startPos = Vec3 0 4.4 0, rayDir = Vec3 0 (- 1) 0, rayLength = 44.4,
      maxRayLength = 308.88, baseStepLength = 0.555, jitter = 0\<rparr>"

text \<open>
  The default bounds as binary32 numbers: \<open>-40\<close> is one, and \<open>4.4\<close> rounds to
  \<open>9227469 / 2^21\<close>.
\<close>

definition defaultUniforms32 :: uniforms where
  "defaultUniforms32 = defaultUniforms\<lparr>fogMaxY := 9227469 / 2097152\<rparr>"

text \<open>
  A configuration with a constant density field inside the slab: no noise bias, a noise
  exponent of 1, no height fog, two base steps. Below the fade-out band the density is
  \<open>0.5\<close> everywhere. \<open>plainFogInit\<close> holds the locals of \<open>march\<close> before the loop for
  the segment from \<open>(0, 0, 0)\<close> to \<open>(4, 0, 0)\<close>.
\<close>

definition plainFog :: uniforms where
  "plainFog = defaultUniforms\<lparr>baseRaymarchStepCount := 2, noiseBias := 0, noisePow := 1,
                heightFogFactor := 0\<rparr>"

definition plainFogInit :: march_init where
  "plainFogInit = \<lparr>startPos = Vec3 0 0 0, rayDir = Vec3 1 0 0, rayLength = 4,
      maxRayLength = 300.8, baseStepLength = 2, jitter = 0\<rparr>"

text \<open>
  The default configuration with a noise texture that is white everywhere, and the locals
  for the segment from \<open>(0, -20, 0)\<close> to \<open>(9000, -20, 0)\<close>; the same with
  \<open>maxDensity = 3\<close>.
\<close>

definition brightFog :: uniforms where
  "brightFog = defaultUniforms\<lparr>noiseTexture := (\<lambda>p. 1)\<rparr>"

definition brightFogInit :: march_init where
  "brightFogInit = \<lparr>startPos = Vec3 0 (- 20) 0, rayDir = Vec3 1 0 0, rayLength = 1800,
      maxRayLength = 1800, baseStepLength = 22.5, jitter = 0\<rparr>"

definition denseFog :: uniforms where
  "denseFog = brightFog\<lparr>maxDensity := 3\<rparr>"

text \<open>
  The constant-density configuration with a blue-noise texture that is black everywhere
  (the jitter is then \<open>-0.05\<close>) and \<open>maxRaymarchStepCount = baseRaymarchStepCount = 2\<close>;
  the locals for the segments from \<open>(0, 0, 0)\<close> to \<open>(4, 0, 0)\<close> and to
  \<open>(0.2, 0, 0)\<close>.
\<close>

definition jitterFog :: uniforms where
  "jitterFog = plainFog\<lparr>blueNoise := (\<lambda>i j. 0), maxRaymarchStepCount := 2\<rparr>"

definition jitterFogInit :: march_init where
  "jitterFogInit = \<lparr>startPos = Vec3 (- 0.05) 0 0, rayDir = Vec3 1 0 0, rayLength = 4,
      maxRayLength = 300.8, baseStepLength = 2, jitter = - 0.05\<rparr>"

definition shortRayInit :: march_init where
  "shortRayInit = \<lparr>startPos = Vec3 (- 0.05) 0 0, rayDir = Vec3 1 0 0, rayLength = 0.2,
      maxRayLength = 300.04, baseStepLength = 0.1, jitter = - 0.05\<rparr>"

text \<open>
  The same configuration without a minimum step length, and the locals for the segment
  from \<open>(0, 0, 0)\<close> to \<open>(0.01, 0, 0)\<close>: the base step length is \<open>0.005\<close>, the jitter
  term \<open>-0.01\<close>, the step length \<open>-0.005\<close>.
\<close>

definition backwardFog :: uniforms where
  "backwardFog = jitterFog\<lparr>minStepLength := 0\<rparr>"

definition backwardInit :: march_init where
  "backwardInit = \<lparr>startPos = Vec3 (- 0.05) 0 0, rayDir = Vec3 1 0 0, rayLength = 0.01,
      maxRayLength = 300.002, baseStepLength = 0.005, jitter = - 0.05\<rparr>"

text \<open>The default configuration with \<open>fogFadeOutPow = 0\<close>.\<close>

definition flatFade :: uniforms where
  "flatFade = defaultUniforms\<lparr>fogFadeOutPow := 0\<rparr>"

section \<open>Properties of the slab clipper\<close>

lemma length_vec3_axis_x: "length_vec3 (Vec3 a 0 0) = \<bar>a\<bar>"
  by (simp add: length_vec3_def)

lemma length_vec3_axis_y: "length_vec3 (Vec3 0 b 0) = \<bar>b\<bar>"
  by (simp add: length_vec3_def)

lemma length_vec3_pos: "vy a \<noteq> 0 \<Longrightarrow> 0 < length_vec3 a"
proof -
  assume h: "vy a \<noteq> 0"
  have "0 < vy a * vy a" using h by (auto simp: zero_less_mult_iff)
  moreover have "0 \<le> vx a * vx a" "0 \<le> vz a * vz a" by simp_all
  ultimately have "0 < vx a * vx a + vy a * vy a + vz a * vz a" by linarith
  then show ?thesis by (simp add: length_vec3_def)
qed

lemma normalize_vy:
  assumes "vy a \<noteq> 0"
  obtains d where "normalize_vec3 a = Some d" and "vy d \<noteq> 0"
proof -
  have "0 < length_vec3 a" using assms by (rule length_vec3_pos)
  then show ?thesis using assms that by (simp add: normalize_vec3_def)
qed

lemma movedToPlane_Some:
  "vy d \<noteq> 0 \<Longrightarrow>
   movedToPlane (Some d) p h = Some (vadd p (vscale d (- (vy p - h) / vy d)))"
  by (simp add: movedToPlane_def intersectRayXZPlane_def)

text \<open>A point moved to a plane lies on that plane.\<close>

lemma movedToPlane_vy: "movedToPlane r p h = Some q \<Longrightarrow> vy q = h"
  by (cases r)
     (auto simp: movedToPlane_def intersectRayXZPlane_def vadd_def vscale_def split: if_splits)

text \<open>For a segment with both endpoints at the same height no plane intersection exists.\<close>

lemma horizontal_no_intersection:
  "vy s = vy e \<Longrightarrow> movedToPlane (normalize_vec3 (vsub e s)) p h = None"
  by (auto simp add: movedToPlane_def normalize_vec3_def vsub_def intersectRayXZPlane_def)

lemma clip_horizontal:
  "vy s = vy e \<Longrightarrow>
   clipRayEndpoints u s e =
     Some (if (vy s < fogMinY u \<and> vy e < fogMinY u) \<or> (vy s > fogMaxY u \<and> vy e > fogMaxY u)
           then (e, e) else (s, e))"
  by (auto simp add: clipRayEndpoints_def)

lemma clip_ordered_within:
  assumes "fogMinY u \<le> fogMaxY u" and "clipRayEndpoints u s e = Some (s', e')"
  shows "s' = e' \<or> (fogMinY u \<le> vy s' \<and> vy s' \<le> fogMaxY u
                     \<and> fogMinY u \<le> vy e' \<and> vy e' \<le> fogMaxY u)"
  using assms
  by (auto simp: clipRayEndpoints_def Let_def bind_eq_Some_conv split: if_splits
           dest!: movedToPlane_vy)

text \<open>
  With inverted bounds the last two conditionals both fire and move both endpoints to the
  same point, so the result is a collapsed segment.
\<close>

lemma clip_collapsed_or_within:
  assumes "clipRayEndpoints u s e = Some (s', e')"
  shows "s' = e' \<or> (fogMinY u \<le> vy s' \<and> vy s' \<le> fogMaxY u
                     \<and> fogMinY u \<le> vy e' \<and> vy e' \<le> fogMaxY u)"
proof (cases "fogMinY u \<le> fogMaxY u")
  case True
  then show ?thesis using assms by (rule clip_ordered_within)
next
  case False
  then have inv: "fogMaxY u < fogMinY u" by simp
  show ?thesis
  proof (cases "(vy s < fogMinY u \<and> vy e < fogMinY u) \<or> (vy s > fogMaxY u \<and> vy e > fogMaxY u)")
    case True
    then show ?thesis using assms by (auto simp add: clipRayEndpoints_def)
  next
    case nc: False
    from nc assms obtain s1 e1 where
      s1: "(if vy s < fogMinY u then movedToPlane (normalize_vec3 (vsub e s)) s (fogMinY u)
            else Some s) = Some s1"
      and e1: "(if vy e < fogMinY u then movedToPlane (normalize_vec3 (vsub e s)) s1 (fogMinY u)
                else Some e) = Some e1"
      and e2: "(if vy e1 > fogMaxY u then movedToPlane (normalize_vec3 (vsub e s)) s1 (fogMaxY u)
                else Some e1) = Some e'"
      and s2: "(if vy s1 > fogMaxY u then movedToPlane (normalize_vec3 (vsub e s)) s1 (fogMaxY u)
                else Some s1) = Some s'"
      by (auto simp: clipRayEndpoints_def Let_def bind_eq_Some_conv)
    have "vy s1 > fogMaxY u" using s1 inv by (auto split: if_splits dest: movedToPlane_vy)
    moreover have "vy e1 > fogMaxY u" using e1 inv by (auto split: if_splits dest: movedToPlane_vy)
    ultimately have "s' = e'" using e2 s2 by simp
    then show ?thesis ..
  qed
qed

lemma clip_fixed:
  assumes "s = e \<or> (fogMinY u \<le> vy s \<and> vy s \<le> fogMaxY u
                    \<and> fogMinY u \<le> vy e \<and> vy e \<le> fogMaxY u)"
  shows "clipRayEndpoints u s e = Some (s, e)"
  using assms by (auto simp: clipRayEndpoints_def)

text \<open>
  The clipper never divides by zero: whenever one of its conditionals fires, the endpoints
  are on different sides of a plane, so the direction has a non-zero y component.
\<close>

lemma clip_total: "\<exists>r. clipRayEndpoints u s e = Some r"
proof (cases "vy s = vy e")
  case True
  then show ?thesis by (simp add: clip_horizontal)
next
  case False
  then have "vy (vsub e s) \<noteq> 0" by (simp add: vsub_def)
  then obtain d where d: "normalize_vec3 (vsub e s) = Some d" "vy d \<noteq> 0" by (rule normalize_vy)
  show ?thesis
    by (simp add: clipRayEndpoints_def d movedToPlane_Some Let_def)
qed

lemma clip_example:
  "clipRayEndpoints defaultUniforms (Vec3 0 10 0) (Vec3 0 (- 50) 0)
     = Some (Vec3 0 4.4 0, Vec3 0 (- 40) 0)"
  by (simp add: clipRayEndpoints_def defaultUniforms_def normalize_vec3_def vsub_def
        length_vec3_axis_y movedToPlane_def intersectRayXZPlane_def vadd_def vscale_def)

subsection \<open>Evaluating the binary32 clipper\<close>

lemma rne_near:
  assumes "\<bar>y - of_int n\<bar> < 1 / 2"
  shows "rne y = n"
proof (cases "of_int n \<le> y")
  case True
  with assms have "\<lfloor>y\<rfloor> = n" by (intro floor_unique) auto
  with assms True show ?thesis by (simp add: rne_def)
next
  case False
  with assms have f: "\<lfloor>y\<rfloor> = n - 1" by (intro floor_unique) auto
  from assms False have "1 / 2 < y - of_int (n - 1)" by auto
  with f show ?thesis by (simp add: rne_def)
qed

lemma round32_near:
  assumes lo: "2 powi e \<le> \<bar>x\<bar>" and hi: "\<bar>x\<bar> < 2 powi (e + 1)"
    and near: "\<bar>x / 2 powi (e - 23) - of_int n\<bar> < 1 / 2"
  shows "round32 x = of_int n * 2 powi (e - 23)"
proof -
  have pos: "0 < \<bar>x\<bar>" using lo zero_less_power_int [of "2::real" e] by linarith
  have "(2::real) powr real_of_int e = 2 powi e" "(2::real) powr (real_of_int e + 1) = 2 powi (e + 1)"
    using powr_real_of_int' [of "2::real" e] powr_real_of_int' [of "2::real" "e + 1"] by simp_all
  with lo hi pos have "\<lfloor>log 2 \<bar>x\<bar>\<rfloor> = e"
    by (simp add: floor_log_eq_powr_iff)
  moreover have "x \<noteq> 0" using pos by simp
  ultimately show ?thesis using rne_near [OF near] by (simp add: round32_def Let_def)
qed

text \<open>A number with a 24-bit significand is not changed.\<close>

lemma round32_exact:
  assumes "2 powi e \<le> \<bar>x\<bar>" and "\<bar>x\<bar> < 2 powi (e + 1)"
    and "x = of_int n * 2 powi (e - 23)"
  shows "round32 x = x"
proof -
  have "x / 2 powi (e - 23) = of_int n" using assms(3) by simp
  then have "\<bar>x / 2 powi (e - 23) - of_int n\<bar> < 1 / 2" by simp
  from round32_near [OF assms(1,2) this] assms(3) show ?thesis by simp
qed

lemma round32_values:
  "round32 0 = 0"
  "round32 1 = 1"
  "round32 (- 1) = - 1"
  "round32 100 = 100"
  "round32 (- 100) = - 100"
  "round32 10000 = 10000"
  "round32 (12530483 / 131072) = 12530483 / 131072"
  "round32 (- (12530483 / 131072)) = - (12530483 / 131072)"
  "round32 (576717 / 131072) = 576717 / 131072"
  "round32 (- (576717 / 131072)) = - (576717 / 131072)"
  "round32 (10150223 / 524288) = 10150223 / 524288"
  "round32 (3 / 2097152) = 3 / 2097152"
  "round32 (- (3 / 2097152)) = - (3 / 2097152)"
  "round32 (9227469 / 2097152) = 9227469 / 2097152"
proof -
  show "round32 0 = 0" by (simp add: round32_def)
  show "round32 1 = 1"
    by (rule round32_exact [where e = 0 and n = 8388608]) simp_all
  show "round32 (- 1) = - 1"
    by (rule round32_exact [where e = 0 and n = "- 8388608"]) simp_all
  show "round32 100 = 100"
    by (rule round32_exact [where e = 6 and n = 13107200]) simp_all
  show "round32 (- 100) = - 100"
    by (rule round32_exact [where e = 6 and n = "- 13107200"]) simp_all
  show "round32 10000 = 10000"
    by (rule round32_exact [where e = 13 and n = 10240000]) simp_all
  show "round32 (12530483 / 131072) = 12530483 / 131072"
    by (rule round32_exact [where e = 6 and n = 12530483]) simp_all
  show "round32 (- (12530483 / 131072)) = - (12530483 / 131072)"
    by (rule round32_exact [where e = 6 and n = "- 12530483"]) simp_all
  show "round32 (576717 / 131072) = 576717 / 131072"
    by (rule round32_exact [where e = 2 and n = 9227472]) simp_all
  show "round32 (- (576717 / 131072)) = - (576717 / 131072)"
    by (rule round32_exact [where e = 2 and n = "- 9227472"]) simp_all
  show "round32 (10150223 / 524288) = 10150223 / 524288"
    by (rule round32_exact [where e = 4 and n = 10150223]) simp_all
  show "round32 (3 / 2097152) = 3 / 2097152"
    by (rule round32_exact [where e = "- 20" and n = 12582912]) simp_all
  show "round32 (- (3 / 2097152)) = - (3 / 2097152)"
    by (rule round32_exact [where e = "- 20" and n = "- 12582912"]) simp_all
  show "round32 (9227469 / 2097152) = 9227469 / 2097152"
    by (rule round32_exact [where e = 2 and n = 9227469]) simp_all
qed

text \<open>The two operations of the example that round.\<close>

lemma round32_difference: "round32 (200487731 / 2097152) = 12530483 / 131072"
  using round32_near [where e = 6 and n = 12530483 and x = "200487731 / 2097152"] by simp

lemma round32_square: "round32 (332602498089 / 17179869184) = 10150223 / 524288"
  using round32_near [where e = 4 and n = 10150223 and x = "332602498089 / 17179869184"]
  by simp

lemma sqrt_10000: "sqrt 10000 = 100"
  by (rule real_sqrt_unique) simp_all

lemma round32_sqrt: "round32 (sqrt (10150223 / 524288)) = 576717 / 131072"
proof -
  let ?q = "10150223 / 524288 :: real"
  have lo: "18454943 / 4194304 < sqrt ?q"
    by (rule real_less_rsqrt) (simp add: power2_eq_square)
  have hi: "sqrt ?q < 18454945 / 4194304"
    by (rule real_less_lsqrt) (simp_all add: power2_eq_square)
  have pos: "0 < sqrt ?q" by simp
  have "round32 (sqrt ?q) = of_int 9227472 * 2 powi (2 - 23)"
  proof (rule round32_near)
    show "2 powi 2 \<le> \<bar>sqrt ?q\<bar>" using lo pos by simp
    show "\<bar>sqrt ?q\<bar> < 2 powi (2 + 1)" using hi pos by simp
    have "\<bar>sqrt ?q * 2097152 - 9227472\<bar> < 1 / 2" using lo hi by linarith
    then show "\<bar>sqrt ?q / 2 powi (2 - 23) - of_int 9227472\<bar> < 1 / 2" by simp
  qed
  then show ?thesis by simp
qed

lemma clip32_first:
  "clipRayEndpoints32 defaultUniforms32 (Vec3 0 100 0) (Vec3 0 0 0)
     = Some (Vec3 0 (576717 / 131072) 0, Vec3 0 0 0)"
  by (simp add: clipRayEndpoints32_def defaultUniforms32_def defaultUniforms_def
        normalize_vec3_32_def length_vec3_32_def vsub32_def vadd32_def vscale32_def
        movedToPlane32_def intersectRayXZPlane32_def round32_values round32_difference
        sqrt_10000)

lemma clip32_second:
  "clipRayEndpoints32 defaultUniforms32 (Vec3 0 (576717 / 131072) 0) (Vec3 0 0 0)
     = Some (Vec3 0 (9227469 / 2097152) 0, Vec3 0 0 0)"
  by (simp add: clipRayEndpoints32_def defaultUniforms32_def defaultUniforms_def
        normalize_vec3_32_def length_vec3_32_def vsub32_def vadd32_def vscale32_def
        movedToPlane32_def intersectRayXZPlane32_def round32_values round32_square
        round32_sqrt)

subsection \<open>The claims about the clipper\<close>

text \<open>
  Claim C3. A ray whose two endpoints both lie strictly below \<open>fogMinY\<close>, or both strictly
  above \<open>fogMaxY\<close>, makes \<open>march\<close> return \<open>vec4(0.0)\<close>: colour \<open>(0,0,0)\<close> and
  opacity \<open>0\<close>, for every screen coordinate and every configuration.
\<close>

theorem march_outside_slab_is_zero:
  "(vy s < fogMinY u \<and> vy e < fogMinY u) \<or> (vy s > fogMaxY u \<and> vy e > fogMaxY u)
   \<Longrightarrow> march u s e sc = Some (Vec4 0 0 0 0)"
  by (simp add: march_def clipRayEndpoints_def)

theorem march_outside_slab_is_zero_witness:
  "vy (Vec3 0 (- 50) 0) < fogMinY defaultUniforms
   \<and> vy (Vec3 3 (- 200) 1) < fogMinY defaultUniforms
   \<and> march defaultUniforms (Vec3 0 (- 50) 0) (Vec3 3 (- 200) 1) (10, 20) = Some (Vec4 0 0 0 0)"
  using march_outside_slab_is_zero
          [of "Vec3 0 (- 50) 0" defaultUniforms "Vec3 3 (- 200) 1" "(10, 20)"]
  by (simp add: defaultUniforms_def)

text \<open>
  Claim C7. For a segment whose endpoints have equal y (a direction with zero y component)
  the clipper returns a defined result that is either the collapsed segment (both endpoints
  outside the slab on the same side) or the two endpoints unchanged. No plane-intersection
  parameter is computed: for such a segment every plane intersection would be undefined,
  and an undefined intermediate value would make the result undefined.
\<close>

theorem clip_horizontal_no_intersection:
  "vy s = vy e \<Longrightarrow>
   clipRayEndpoints u s e =
     Some (if (vy s < fogMinY u \<and> vy e < fogMinY u) \<or> (vy s > fogMaxY u \<and> vy e > fogMaxY u)
           then (e, e) else (s, e))
   \<and> movedToPlane (normalize_vec3 (vsub e s)) p h = None"
  by (simp add: clip_horizontal horizontal_no_intersection)

theorem clip_horizontal_no_intersection_witness:
  "vy (Vec3 0 1 0) = vy (Vec3 7 1 2)
   \<and> clipRayEndpoints defaultUniforms (Vec3 0 1 0) (Vec3 7 1 2) = Some (Vec3 0 1 0, Vec3 7 1 2)
   \<and> movedToPlane (normalize_vec3 (vsub (Vec3 7 1 2) (Vec3 0 1 0))) (Vec3 0 1 0) (- 40) = None"
  using clip_horizontal_no_intersection
          [of "Vec3 0 1 0" "Vec3 7 1 2" defaultUniforms "Vec3 0 1 0" "- 40"]
  by (simp add: defaultUniforms_def)

text \<open>
  Claim C8, as stated, is about the clipper as it runs, on binary32 numbers, and there it
  fails. With the default bounds and the segment from \<open>(0, 100, 0)\<close> to \<open>(0, 0, 0)\<close>
  the difference \<open>100 - fogMaxY\<close> is rounded, so the first call leaves the start point at
  \<open>576717 / 2^17\<close>, three units in the last place above \<open>fogMaxY = 9227469 / 2^21\<close>; a
  second call finds it above the plane and moves it again, onto the plane.
\<close>

theorem clip32_not_idempotent:
  "clipRayEndpoints32 defaultUniforms32 (Vec3 0 100 0) (Vec3 0 0 0)
     = Some (Vec3 0 (576717 / 131072) 0, Vec3 0 0 0)
   \<and> clipRayEndpoints32 defaultUniforms32 (Vec3 0 (576717 / 131072) 0) (Vec3 0 0 0)
     = Some (Vec3 0 (9227469 / 2097152) 0, Vec3 0 0 0)
   \<and> Vec3 0 (576717 / 131072) 0 \<noteq> Vec3 0 (9227469 / 2097152) 0"
  using clip32_first clip32_second by simp

text \<open>
  Claim C8, amended. In exact real arithmetic the clipper is idempotent: clipping the
  segment returned by a previous call against the same bounds returns that segment
  unchanged. This holds for every segment and every pair of bounds.
\<close>

theorem clipRayEndpoints_idempotent:
  "clipRayEndpoints u s e = Some (s', e') \<Longrightarrow> clipRayEndpoints u s' e' = Some (s', e')"
  by (rule clip_fixed) (rule clip_collapsed_or_within)

theorem clipRayEndpoints_idempotent_witness:
  "clipRayEndpoints defaultUniforms (Vec3 0 10 0) (Vec3 0 (- 50) 0)
     = Some (Vec3 0 4.4 0, Vec3 0 (- 40) 0)
   \<and> clipRayEndpoints defaultUniforms (Vec3 0 4.4 0) (Vec3 0 (- 40) 0)
     = Some (Vec3 0 4.4 0, Vec3 0 (- 40) 0)"
  using clipRayEndpoints_idempotent [OF clip_example] clip_example by simp

text \<open>
  Claim C10. With \<open>fogMinY \<le> fogMaxY\<close> and exact arithmetic, the segment returned by
  the clipper is collapsed (start = end) or has both endpoints at heights within
  \<open>[fogMinY, fogMaxY]\<close>.
\<close>

theorem clipRayEndpoints_within_slab:
  assumes "fogMinY u \<le> fogMaxY u" and "clipRayEndpoints u s e = Some (s', e')"
  shows "s' = e' \<or> (fogMinY u \<le> vy s' \<and> vy s' \<le> fogMaxY u
                     \<and> fogMinY u \<le> vy e' \<and> vy e' \<le> fogMaxY u)"
  using assms by (rule clip_ordered_within)

theorem clipRayEndpoints_within_slab_witness:
  "fogMinY defaultUniforms \<le> fogMaxY defaultUniforms
   \<and> clipRayEndpoints defaultUniforms (Vec3 0 10 0) (Vec3 0 (- 50) 0)
       = Some (Vec3 0 4.4 0, Vec3 0 (- 40) 0)
   \<and> Vec3 0 4.4 0 \<noteq> Vec3 0 (- 40) 0
   \<and> fogMinY defaultUniforms \<le> vy (Vec3 0 4.4 0) \<and> vy (Vec3 0 4.4 0) \<le> fogMaxY defaultUniforms
   \<and> fogMinY defaultUniforms \<le> vy (Vec3 0 (- 40) 0)
   \<and> vy (Vec3 0 (- 40) 0) \<le> fogMaxY defaultUniforms"
proof -
  have b: "fogMinY defaultUniforms \<le> fogMaxY defaultUniforms"
    by (simp add: defaultUniforms_def)
  show ?thesis
    using clipRayEndpoints_within_slab [OF b clip_example] b clip_example by simp
qed

section \<open>Properties of the density field\<close>

lemma upt_6: "[0..<6] = [0, 1, 2, 3, 4, 5::nat]"
  by (simp add: upt_rec)

text \<open>With a texture of one value \<open>c\<close> every octave samples \<open>2c - 1\<close>.\<close>

lemma octaves_const:
  "noiseTexture u = (\<lambda>p. c) \<Longrightarrow>
   noiseOctaves u worldPos b = (b + (2 * c - 1) * 1.695, 1.695)"
  by (simp add: noiseOctaves_def OCTAVE_COUNT_def sampleFogDensityLOD_def sampleFogFromNoise_def
        LODWeights_def LODScales_def upt_6 Let_def field_simps)

lemma smoothstep_above:
  assumes "e0 < e1" and "e1 \<le> v"
  shows "smoothstep u e0 e1 v = 1"
proof -
  have "1 \<le> (v - e0) / (e1 - e0)" using assms by (simp add: le_divide_eq)
  then have "clamp ((v - e0) / (e1 - e0)) 0 1 = 1" by (simp add: clamp_def)
  then show ?thesis using assms by (simp add: smoothstep_def)
qed

lemma smoothstep_below: "e0 < e1 \<Longrightarrow> v \<le> e0 \<Longrightarrow> smoothstep u e0 e1 v = 0"
  by (simp add: smoothstep_def clamp_def Let_def max_def min_def divide_le_0_iff)

lemma fade_above:
  "0 < fogFadeOutRangeY u \<Longrightarrow> fogMaxY u \<le> y \<Longrightarrow> computeFadeOutYFactor u y = 0"
  by (simp add: computeFadeOutYFactor_def smoothstep_above pow_def)

lemma fade_below:
  "0 < fogFadeOutRangeY u \<Longrightarrow> 0 < fogFadeOutPow u \<Longrightarrow> y \<le> fogMaxY u - fogFadeOutRangeY u
   \<Longrightarrow> computeFadeOutYFactor u y = 1"
  by (simp add: computeFadeOutYFactor_def smoothstep_below pow_def)

text \<open>
  Above \<open>fogMaxY\<close> the density is the noise and height terms times a fade-out factor of 0.
  The wind drift has no y component, so the fade is taken at the height of the input.
\<close>

lemma sample_above:
  assumes "0 < fogFadeOutRangeY u" and "fogMaxY u \<le> vy p"
  shows "sampleFogDensity u p = 0"
proof -
  let ?w = "vadd p (vscale (Vec3 (fst (noiseMovementPerSecond u)) 0
                             (snd (noiseMovementPerSecond u))) (curTimeSeconds u))"
  have y: "vy ?w = vy p" by (simp add: vadd_def vscale_def)
  have "computeFadeOutYFactor u (vy ?w) = 0"
    using assms by (simp only: y fade_above)
  then show ?thesis
    by (simp add: sampleFogDensity_def Let_def split: prod.splits)
qed

section \<open>Properties of the stepping loop\<close>

lemma loopBody_fields:
  "density (loopBody u m st) =
     (if 0.01 < sampleFogDensity u (curPos m st)
      then density st + sampleFogDensity u (curPos m st) * stepLength u m
                          * fogDensityMultiplier u * (1 - density st)
      else density st)"
  "totalDistance (loopBody u m st) = totalDistance st + stepLength u m"
  "totalIters (loopBody u m st) = totalIters st + 1"
  by (simp_all add: loopBody_def sampleOneStep_def curPos_def Let_def split: prod.splits)

lemma loopBody_sampled:
  "sampleFogDensity u (curPos m st) = r \<Longrightarrow> 0.01 < r \<Longrightarrow>
   loopBody u m st =
     \<lparr>density = density st + r * stepLength u m * fogDensityMultiplier u * (1 - density st),
      totalDistance = totalDistance st + stepLength u m,
      totalIters = totalIters st + 1,
      accumulatedColor = vadd (accumulatedColor st)
        (vscale (vscale (computeColor u (curPos m st) r)
                   (r * stepLength u m * fogDensityMultiplier u)) (1 - density st))\<rparr>"
  by (simp add: loopBody_def sampleOneStep_def curPos_def Let_def)

text \<open>The trace of the loop is empty or starts with the result of one pass of the body.\<close>

lemma marchLoop_Nil_or_Cons:
  "fst (marchLoop u m st) = [] \<or>
   (totalDistance st < rayLength m \<and> totalIters st \<le> maxRaymarchStepCount u \<and>
      (fst (marchLoop u m st) = [loopBody u m st] \<or>
       (density (loopBody u m st) < maxDensity u - 0.01
        \<and> fst (marchLoop u m st) = loopBody u m st # fst (marchLoop u m (loopBody u m st)))))"
  by (subst (1 2 3) marchLoop.simps) (auto simp: Let_def split: prod.splits)

text \<open>
  Every state of the trace comes from its predecessor by one pass of the body; the
  predecessor passed the loop condition and the safety check, and every state but the last
  is below the saturation threshold.
\<close>

lemma marchLoop_chain:
  "i < length (fst (marchLoop u m st)) \<Longrightarrow>
     totalDistance ((st # fst (marchLoop u m st)) ! i) < rayLength m
   \<and> totalIters ((st # fst (marchLoop u m st)) ! i) \<le> maxRaymarchStepCount u
   \<and> loopBody u m ((st # fst (marchLoop u m st)) ! i) = fst (marchLoop u m st) ! i
   \<and> (Suc i < length (fst (marchLoop u m st)) \<longrightarrow>
         density (fst (marchLoop u m st) ! i) < maxDensity u - 0.01)"
proof (induction i arbitrary: st)
  case 0
  then show ?case using marchLoop_Nil_or_Cons [of u m st] by auto
next
  case (Suc i)
  from Suc.prems marchLoop_Nil_or_Cons [of u m st] have
    tr: "fst (marchLoop u m st) = loopBody u m st # fst (marchLoop u m (loopBody u m st))"
    by auto
  with Suc.prems have "i < length (fst (marchLoop u m (loopBody u m st)))" by simp
  from Suc.IH [OF this] show ?case by (simp add: tr)
qed

text \<open>
  With the same raw density \<open>k > 0.01\<close> at every sampled position each iteration
  multiplies the remaining transparency by \<open>1 - k * stepLength * fogDensityMultiplier\<close>.
\<close>

lemma trace_closed_form:
  assumes k: "0.01 < k"
    and const: "\<forall>i < length (fst (marchLoop u m st)).
                  sampleFogDensity u (curPos m ((st # fst (marchLoop u m st)) ! i)) = k"
  shows "n \<le> length (fst (marchLoop u m st)) \<Longrightarrow>
         1 - density ((st # fst (marchLoop u m st)) ! n)
           = (1 - density st) * (1 - k * stepLength u m * fogDensityMultiplier u) ^ n"
proof (induction n)
  case 0
  then show ?case by simp
next
  case (Suc n)
  then have n: "n < length (fst (marchLoop u m st))" by simp
  from marchLoop_chain [OF n]
  have body: "loopBody u m ((st # fst (marchLoop u m st)) ! n) = fst (marchLoop u m st) ! n"
    by simp
  from const n
  have smp: "sampleFogDensity u (curPos m ((st # fst (marchLoop u m st)) ! n)) = k"
    by simp
  have "density (loopBody u m ((st # fst (marchLoop u m st)) ! n))
          = density ((st # fst (marchLoop u m st)) ! n)
            + k * stepLength u m * fogDensityMultiplier u
              * (1 - density ((st # fst (marchLoop u m st)) ! n))"
    using k by (simp add: loopBody_fields smp)
  then have "1 - density (fst (marchLoop u m st) ! n)
       = (1 - density ((st # fst (marchLoop u m st)) ! n))
         * (1 - k * stepLength u m * fogDensityMultiplier u)"
    unfolding body by (simp add: algebra_simps)
  also have "1 - density ((st # fst (marchLoop u m st)) ! n)
       = (1 - density st) * (1 - k * stepLength u m * fogDensityMultiplier u) ^ n"
    using Suc.IH n by simp
  finally show ?case by simp
qed

text \<open>
  One pass of the body from an accumulated density in \<open>[0, 1]\<close> with a non-negative
  increment factor does not decrease the accumulated density.
\<close>

lemma loopBody_density_mono:
  assumes d0: "density st \<le> 1"
    and incr: "0.01 < sampleFogDensity u (curPos m st) \<longrightarrow>
               0 \<le> sampleFogDensity u (curPos m st) * stepLength u m * fogDensityMultiplier u"
  shows "density st \<le> density (loopBody u m st)"
proof (cases "0.01 < sampleFogDensity u (curPos m st)")
  case True
  with incr have
    "0 \<le> sampleFogDensity u (curPos m st) * stepLength u m * fogDensityMultiplier u" by simp
  moreover have "0 \<le> 1 - density st" using d0 by simp
  ultimately have
    "0 \<le> sampleFogDensity u (curPos m st) * stepLength u m * fogDensityMultiplier u
            * (1 - density st)"
    by (rule mult_nonneg_nonneg)
  then show ?thesis using True by (simp add: loopBody_fields)
next
  case False
  then show ?thesis by (simp add: loopBody_fields)
qed

text \<open>
  With \<open>maxDensity \<le> 1.01\<close> every iteration starts from an accumulated density in
  \<open>[0, 1]\<close>: it starts the first from the initial value, and a later one only if the
  previous iteration stayed below \<open>maxDensity - 0.01\<close>.
\<close>

lemma trace_density_mono:
  assumes cap: "maxDensity u \<le> 1.01"
    and d0: "0 \<le> density st" "density st \<le> 1"
    and incr: "\<forall>i < length (fst (marchLoop u m st)).
                 0.01 < sampleFogDensity u (curPos m ((st # fst (marchLoop u m st)) ! i)) \<longrightarrow>
                 0 \<le> sampleFogDensity u (curPos m ((st # fst (marchLoop u m st)) ! i))
                       * stepLength u m * fogDensityMultiplier u"
  shows "i < length (fst (marchLoop u m st)) \<Longrightarrow>
         0 \<le> density ((st # fst (marchLoop u m st)) ! i)
         \<and> density ((st # fst (marchLoop u m st)) ! i) \<le> 1
         \<and> density ((st # fst (marchLoop u m st)) ! i) \<le> density (fst (marchLoop u m st) ! i)"
proof (induction i)
  case 0
  from marchLoop_chain [OF 0]
  have body: "loopBody u m st = fst (marchLoop u m st) ! 0" by simp
  from incr 0 have "0.01 < sampleFogDensity u (curPos m st) \<longrightarrow>
      0 \<le> sampleFogDensity u (curPos m st) * stepLength u m * fogDensityMultiplier u"
    by fastforce
  from loopBody_density_mono [OF d0(2) this] d0 show ?case unfolding body by simp
next
  case (Suc i)
  then have i: "i < length (fst (marchLoop u m st))" by simp
  from Suc.IH [OF i] have lo: "0 \<le> density (fst (marchLoop u m st) ! i)" by simp
  from marchLoop_chain [OF i] Suc.prems
  have "density (fst (marchLoop u m st) ! i) < maxDensity u - 0.01" by blast
  with cap have hi: "density (fst (marchLoop u m st) ! i) \<le> 1" by simp
  from marchLoop_chain [OF Suc.prems]
  have body: "loopBody u m (fst (marchLoop u m st) ! i) = fst (marchLoop u m st) ! Suc i"
    by simp
  from incr Suc.prems have
    "0.01 < sampleFogDensity u (curPos m (fst (marchLoop u m st) ! i)) \<longrightarrow>
     0 \<le> sampleFogDensity u (curPos m (fst (marchLoop u m st) ! i))
           * stepLength u m * fogDensityMultiplier u"
    by fastforce
  from loopBody_density_mono [OF hi this] lo hi show ?case unfolding body by simp
qed

text \<open>The distance advances by the step length, the counter by one, in every iteration.\<close>

lemma trace_advance:
  assumes "i < length (fst (marchLoop u m st))"
  shows "totalDistance (fst (marchLoop u m st) ! i)
           = totalDistance ((st # fst (marchLoop u m st)) ! i) + stepLength u m
         \<and> totalIters (fst (marchLoop u m st) ! i)
           = totalIters ((st # fst (marchLoop u m st)) ! i) + 1"
proof -
  from marchLoop_chain [OF assms]
  have body: "loopBody u m ((st # fst (marchLoop u m st)) ! i) = fst (marchLoop u m st) ! i"
    by simp
  show ?thesis
    using loopBody_fields(2,3) [of u m "(st # fst (marchLoop u m st)) ! i"]
    unfolding body by simp
qed

lemma trace_totalIters:
  "i \<le> length (fst (marchLoop u m st)) \<Longrightarrow>
   totalIters ((st # fst (marchLoop u m st)) ! i) = totalIters st + int i"
proof (induction i)
  case 0
  then show ?case by simp
next
  case (Suc i)
  then have i: "i < length (fst (marchLoop u m st))" by simp
  from trace_advance [OF i] Suc.IH i show ?case by simp
qed

text \<open>
  The loop runs at most \<open>maxRaymarchStepCount + 1\<close> iterations: the safety check compares
  with \<open>>\<close> before the counter is incremented.
\<close>

lemma iterations_le_cap_plus_one:
  "int (length (fst (marchLoop u m initialState))) \<le> max 0 (maxRaymarchStepCount u + 1)"
proof (cases "fst (marchLoop u m initialState) = []")
  case True
  then show ?thesis by simp
next
  case False
  then have i: "length (fst (marchLoop u m initialState)) - 1
                  < length (fst (marchLoop u m initialState))" by simp
  from marchLoop_chain [OF i]
  have "totalIters ((initialState # fst (marchLoop u m initialState))
          ! (length (fst (marchLoop u m initialState)) - 1)) \<le> maxRaymarchStepCount u"
    by simp
  moreover from i have
    "totalIters ((initialState # fst (marchLoop u m initialState))
          ! (length (fst (marchLoop u m initialState)) - 1))
       = totalIters initialState + int (length (fst (marchLoop u m initialState)) - 1)"
    by (intro trace_totalIters) simp
  ultimately show ?thesis using False by (simp add: initialState_def)
qed

lemma marchInit_lengths:
  "marchInit u s e sc = Some m \<Longrightarrow>
   maxRayLength m = baseMaxRayLength u + min (length_vec3 (vsub e s) * 0.2) 1500
   \<and> rayLength m = min (length_vec3 (vsub e s)) (maxRayLength m)"
  by (auto simp: marchInit_def Let_def bind_eq_Some_conv split: if_splits)

lemma marchInit_jitter:
  "marchInit u s e sc = Some m \<Longrightarrow> blueNoiseSample u sc = Some b
   \<Longrightarrow> jitter m = (b - 0.5) * 0.1"
  by (auto simp: marchInit_def Let_def bind_eq_Some_conv split: if_splits)

text \<open>The locals are only defined for a segment that is not collapsed.\<close>

lemma marchInit_distinct: "marchInit u s e sc = Some m \<Longrightarrow> s \<noteq> e"
  by (auto simp: marchInit_def normalize_vec3_def vsub_def length_vec3_def
           bind_eq_Some_conv split: if_splits)

text \<open>
  \<open>march\<close> computes its locals from the endpoints that \<open>clipRayEndpoints\<close> returned.
\<close>

lemma march_after_clip:
  assumes "clipRayEndpoints u s e = Some (s', e')" and "s' \<noteq> e'"
  shows "march u s e sc = map_option (marchFinish u) (marchInit u s' e' sc)"
  using assms by (cases "marchInit u s' e' sc") (simp_all add: march_def)

lemma jitter_step_lower:
  fixes a M b :: real
  assumes "a \<le> M" and "0 \<le> b"
  shows "a - 0.01 \<le> M + (b - 0.5) * 0.1 * 0.2"
proof -
  have "(b - 0.5) * 0.1 * 0.2 = (2 * b - 1) / 100" by (simp add: field_simps)
  then show ?thesis using assms by (simp add: field_simps)
qed

lemma jitter_step_nonneg:
  fixes a M b :: real
  assumes "a \<le> M" and "0.5 \<le> b"
  shows "a \<le> M + (b - 0.5) * 0.1 * 0.2"
proof -
  have "(b - 0.5) * 0.1 * 0.2 = (2 * b - 1) / 100" by (simp add: field_simps)
  then show ?thesis using assms by (simp add: field_simps)
qed

section \<open>Runs of the reference configurations\<close>

lemma defaultInit:
  "marchInit defaultUniforms (Vec3 0 4.4 0) (Vec3 0 (- 40) 0) (0, 0) = Some defaultInit"
  by (simp add: marchInit_def defaultUniforms_def defaultInit_def normalize_vec3_def vsub_def
        length_vec3_axis_y blueNoiseSample_def vadd_def vscale_def Let_def)

lemma plainFog_fields:
  "maxDensity plainFog = 1" "fogDensityMultiplier plainFog = 0.086"
  "maxRaymarchStepCount plainFog = 400" "minStepLength plainFog = 0.2"
  by (simp_all add: plainFog_def defaultUniforms_def)

lemma plainFogInit_fields:
  "rayLength plainFogInit = 4" "baseStepLength plainFogInit = 2" "jitter plainFogInit = 0"
  by (simp_all add: plainFogInit_def)

lemma plainFog_sample: "vy p = 0 \<Longrightarrow> sampleFogDensity plainFog p = 0.5"
  by (simp add: sampleFogDensity_def octaves_const plainFog_def defaultUniforms_def vadd_def
        vscale_def clamp_def pow_def smoothstep_def computeFadeOutYFactor_def Let_def)

lemma plainFog_blueNoise: "blueNoiseSample plainFog (0, 0) = Some 0.5"
  by (simp add: blueNoiseSample_def plainFog_def defaultUniforms_def)

lemma plainFogInit:
  "marchInit plainFog (Vec3 0 0 0) (Vec3 4 0 0) (0, 0) = Some plainFogInit"
  by (simp add: marchInit_def plainFog_def defaultUniforms_def plainFogInit_def
        normalize_vec3_def vsub_def length_vec3_axis_x blueNoiseSample_def vadd_def vscale_def
        Let_def)

lemma plainFog_curPos: "vy (curPos plainFogInit st) = 0"
  by (simp add: curPos_def plainFogInit_def vadd_def vscale_def)

lemma plainFog_stepLength: "stepLength plainFog plainFogInit = 2"
  by (simp add: stepLength_def plainFog_fields plainFogInit_fields)

lemmas plainFog_body =
  loopBody_sampled [of plainFog plainFogInit _ "0.5",
    OF plainFog_sample [OF plainFog_curPos], unfolded plainFog_stepLength plainFog_fields]

lemma plainFog_trace:
  "map density (fst (marchLoop plainFog plainFogInit initialState)) = [0.086, 0.164604]"
  "map totalDistance (fst (marchLoop plainFog plainFogInit initialState)) = [2, 4]"
  "snd (marchLoop plainFog plainFogInit initialState) = Exhausted"
  by (simp_all add: marchLoop.simps Let_def plainFog_body initialState_def plainFog_fields
        plainFogInit_fields)

lemma plainFog_length: "length (fst (marchLoop plainFog plainFogInit initialState)) = 2"
  using plainFog_trace(1) [THEN arg_cong, of length] by simp

lemma brightFog_fields:
  "maxDensity brightFog = 1" "fogDensityMultiplier brightFog = 0.086"
  "maxRaymarchStepCount brightFog = 400" "minStepLength brightFog = 0.2"
  by (simp_all add: brightFog_def defaultUniforms_def)

lemma denseFog_fields:
  "maxDensity denseFog = 3" "fogDensityMultiplier denseFog = 0.086"
  "maxRaymarchStepCount denseFog = 400" "minStepLength denseFog = 0.2"
  by (simp_all add: denseFog_def brightFog_def defaultUniforms_def)

lemma brightFogInit_fields:
  "rayLength brightFogInit = 1800" "baseStepLength brightFogInit = 22.5"
  "jitter brightFogInit = 0"
  by (simp_all add: brightFogInit_def)

lemma brightFog_sample: "vy p = - 20 \<Longrightarrow> sampleFogDensity brightFog p = 1.1852"
  by (simp add: sampleFogDensity_def octaves_const brightFog_def defaultUniforms_def vadd_def
        vscale_def clamp_def pow_def smoothstep_def computeFadeOutYFactor_def Let_def)

lemma denseFog_sample: "vy p = - 20 \<Longrightarrow> sampleFogDensity denseFog p = 1.1852"
  by (simp add: sampleFogDensity_def octaves_const denseFog_def brightFog_def
        defaultUniforms_def vadd_def vscale_def clamp_def pow_def smoothstep_def
        computeFadeOutYFactor_def Let_def)

lemma brightFog_clip:
  "clipRayEndpoints brightFog (Vec3 0 (- 20) 0) (Vec3 9000 (- 20) 0)
     = Some (Vec3 0 (- 20) 0, Vec3 9000 (- 20) 0)"
  by (simp add: clip_horizontal brightFog_def defaultUniforms_def)

lemma denseFog_clip:
  "clipRayEndpoints denseFog (Vec3 0 (- 20) 0) (Vec3 9000 (- 20) 0)
     = Some (Vec3 0 (- 20) 0, Vec3 9000 (- 20) 0)"
  by (simp add: clip_horizontal denseFog_def brightFog_def defaultUniforms_def)

lemma brightFogInit:
  "marchInit brightFog (Vec3 0 (- 20) 0) (Vec3 9000 (- 20) 0) (0, 0) = Some brightFogInit"
  by (simp add: marchInit_def brightFog_def defaultUniforms_def brightFogInit_def
        normalize_vec3_def vsub_def length_vec3_axis_x blueNoiseSample_def vadd_def vscale_def
        Let_def)

lemma denseFogInit:
  "marchInit denseFog (Vec3 0 (- 20) 0) (Vec3 9000 (- 20) 0) (0, 0) = Some brightFogInit"
  by (simp add: marchInit_def denseFog_def brightFog_def defaultUniforms_def brightFogInit_def
        normalize_vec3_def vsub_def length_vec3_axis_x blueNoiseSample_def vadd_def vscale_def
        Let_def)

lemma brightFog_curPos: "vy (curPos brightFogInit st) = - 20"
  by (simp add: curPos_def brightFogInit_def vadd_def vscale_def)

lemma brightFog_stepLength: "stepLength brightFog brightFogInit = 22.5"
  by (simp add: stepLength_def brightFog_fields brightFogInit_fields)

lemma denseFog_stepLength: "stepLength denseFog brightFogInit = 22.5"
  by (simp add: stepLength_def denseFog_fields brightFogInit_fields)

lemmas brightFog_body =
  loopBody_sampled [of brightFog brightFogInit _ "1.1852",
    OF brightFog_sample [OF brightFog_curPos], unfolded brightFog_stepLength brightFog_fields]

lemmas denseFog_body =
  loopBody_sampled [of denseFog brightFogInit _ "1.1852",
    OF denseFog_sample [OF brightFog_curPos], unfolded denseFog_stepLength denseFog_fields]

lemma brightFog_trace:
  "map density (fst (marchLoop brightFog brightFogInit initialState)) = [2.293362]"
  "snd (marchLoop brightFog brightFogInit initialState) = Saturated"
  by (simp_all add: marchLoop.simps Let_def brightFog_body initialState_def brightFog_fields
        brightFogInit_fields)

lemma brightFog_length: "length (fst (marchLoop brightFog brightFogInit initialState)) = 1"
  using brightFog_trace(1) [THEN arg_cong, of length] by simp

text \<open>
  With \<open>maxDensity = 3\<close> the first iteration does not saturate; the second starts from an
  accumulated density above 1, so its remaining opacity is negative.
\<close>

lemma denseFog_trace:
  "map density (fst (marchLoop denseFog brightFogInit initialState))
     = [2.293362, - 0.672785263044, 3.163516893381113928]"
  "snd (marchLoop denseFog brightFogInit initialState) = Saturated"
  by (simp_all add: marchLoop.simps Let_def denseFog_body initialState_def denseFog_fields
        brightFogInit_fields)

lemma jitterFog_fields:
  "maxDensity jitterFog = 1" "fogDensityMultiplier jitterFog = 0.086"
  "maxRaymarchStepCount jitterFog = 2" "minStepLength jitterFog = 0.2"
  "baseRaymarchStepCount jitterFog = 2"
  by (simp_all add: jitterFog_def plainFog_def defaultUniforms_def)

lemma backwardFog_fields:
  "maxDensity backwardFog = 1" "fogDensityMultiplier backwardFog = 0.086"
  "maxRaymarchStepCount backwardFog = 2" "minStepLength backwardFog = 0"
  by (simp_all add: backwardFog_def jitterFog_def plainFog_def defaultUniforms_def)

lemma jitterFogInit_fields:
  "rayLength jitterFogInit = 4" "baseStepLength jitterFogInit = 2"
  "jitter jitterFogInit = - 0.05"
  by (simp_all add: jitterFogInit_def)

lemma shortRayInit_fields:
  "rayLength shortRayInit = 0.2" "baseStepLength shortRayInit = 0.1"
  "jitter shortRayInit = - 0.05"
  by (simp_all add: shortRayInit_def)

lemma backwardInit_fields:
  "rayLength backwardInit = 0.01" "baseStepLength backwardInit = 0.005"
  "jitter backwardInit = - 0.05"
  by (simp_all add: backwardInit_def)

lemma jitterFog_sample: "vy p = 0 \<Longrightarrow> sampleFogDensity jitterFog p = 0.5"
  by (simp add: sampleFogDensity_def octaves_const jitterFog_def plainFog_def
        defaultUniforms_def vadd_def vscale_def clamp_def pow_def smoothstep_def
        computeFadeOutYFactor_def Let_def)

lemma backwardFog_sample: "vy p = 0 \<Longrightarrow> sampleFogDensity backwardFog p = 0.5"
  by (simp add: sampleFogDensity_def octaves_const backwardFog_def jitterFog_def plainFog_def
        defaultUniforms_def vadd_def vscale_def clamp_def pow_def smoothstep_def
        computeFadeOutYFactor_def Let_def)

lemma jitterFog_clip:
  "clipRayEndpoints jitterFog (Vec3 0 0 0) (Vec3 a 0 0) = Some (Vec3 0 0 0, Vec3 a 0 0)"
  by (simp add: clip_horizontal jitterFog_def plainFog_def defaultUniforms_def)

lemma backwardFog_clip:
  "clipRayEndpoints backwardFog (Vec3 0 0 0) (Vec3 a 0 0) = Some (Vec3 0 0 0, Vec3 a 0 0)"
  by (simp add: clip_horizontal backwardFog_def jitterFog_def plainFog_def
        defaultUniforms_def)

lemma jitterFogInit:
  "marchInit jitterFog (Vec3 0 0 0) (Vec3 4 0 0) (0, 0) = Some jitterFogInit"
  by (simp add: marchInit_def jitterFog_def plainFog_def defaultUniforms_def jitterFogInit_def
        normalize_vec3_def vsub_def length_vec3_axis_x blueNoiseSample_def vadd_def vscale_def
        Let_def)

lemma shortRayInit:
  "marchInit jitterFog (Vec3 0 0 0) (Vec3 0.2 0 0) (0, 0) = Some shortRayInit"
  by (simp add: marchInit_def jitterFog_def plainFog_def defaultUniforms_def shortRayInit_def
        normalize_vec3_def vsub_def length_vec3_axis_x blueNoiseSample_def vadd_def vscale_def
        Let_def)

lemma backwardInit:
  "marchInit backwardFog (Vec3 0 0 0) (Vec3 0.01 0 0) (0, 0) = Some backwardInit"
  by (simp add: marchInit_def backwardFog_def jitterFog_def plainFog_def defaultUniforms_def
        backwardInit_def normalize_vec3_def vsub_def length_vec3_axis_x blueNoiseSample_def
        vadd_def vscale_def Let_def)

lemma jitterFog_curPos: "vy (curPos jitterFogInit st) = 0"
  by (simp add: curPos_def jitterFogInit_def vadd_def vscale_def)

lemma shortRay_curPos: "vy (curPos shortRayInit st) = 0"
  by (simp add: curPos_def shortRayInit_def vadd_def vscale_def)

lemma backward_curPos: "vy (curPos backwardInit st) = 0"
  by (simp add: curPos_def backwardInit_def vadd_def vscale_def)

lemma jitterFog_stepLength: "stepLength jitterFog jitterFogInit = 1.99"
  by (simp add: stepLength_def jitterFog_fields jitterFogInit_fields)

lemma shortRay_stepLength: "stepLength jitterFog shortRayInit = 0.19"
  by (simp add: stepLength_def jitterFog_fields shortRayInit_fields)

lemma backward_stepLength: "stepLength backwardFog backwardInit = - 0.005"
  by (simp add: stepLength_def backwardFog_fields backwardInit_fields)

lemmas jitterFog_body =
  loopBody_sampled [of jitterFog jitterFogInit _ "0.5",
    OF jitterFog_sample [OF jitterFog_curPos], unfolded jitterFog_stepLength jitterFog_fields]

lemmas shortRay_body =
  loopBody_sampled [of jitterFog shortRayInit _ "0.5",
    OF jitterFog_sample [OF shortRay_curPos], unfolded shortRay_stepLength jitterFog_fields]

lemmas backward_body =
  loopBody_sampled [of backwardFog backwardInit _ "0.5",
    OF backwardFog_sample [OF backward_curPos],
    unfolded backward_stepLength backwardFog_fields]

lemma jitterFog_trace:
  "map totalIters (fst (marchLoop jitterFog jitterFogInit initialState)) = [1, 2, 3]"
  "map totalDistance (fst (marchLoop jitterFog jitterFogInit initialState))
     = [1.99, 3.98, 5.97]"
  "snd (marchLoop jitterFog jitterFogInit initialState) = Exhausted"
  by (simp_all add: marchLoop.simps Let_def jitterFog_body initialState_def jitterFog_fields
        jitterFogInit_fields)

lemma shortRay_trace:
  "map totalDistance (fst (marchLoop jitterFog shortRayInit initialState)) = [0.19, 0.38]"
  by (simp add: marchLoop.simps Let_def shortRay_body initialState_def jitterFog_fields
        shortRayInit_fields)

text \<open>
  With a negative step length the distance never reaches the ray length; the loop is left
  through the safety check, after three iterations that each lower the accumulated
  density.
\<close>

lemma backward_trace:
  "map density (fst (marchLoop backwardFog backwardInit initialState))
     = [- 0.000215, - 0.000430046225, - 0.000645138684938375]"
  "snd (marchLoop backwardFog backwardInit initialState) = IterationCapped"
  by (simp_all add: marchLoop.simps Let_def backward_body initialState_def backwardFog_fields
        backwardInit_fields)

section \<open>The claims about the integrator and the density field\<close>

text \<open>
  Claim C1. In a ray integration in which the density field returns the same constant
  \<open>k > 0.01\<close> at every sampled position, the accumulated density after \<open>n\<close> iterations
  of the stepping loop (it starts at 0, and every iteration uses the same step length
  \<open>s = stepLength\<close>) is \<open>1 - (1 - k * s * fogDensityMultiplier) ^ n\<close> in exact
  arithmetic. The bounds \<open>0 \<le> k * s * fogDensityMultiplier \<le> 1\<close> of the claim are not
  needed for the identity.
\<close>

theorem constant_density_closed_form:
  assumes "0.01 < k"
    and "\<forall>i < length (fst (marchLoop u m initialState)).
           sampleFogDensity u
             (curPos m ((initialState # fst (marchLoop u m initialState)) ! i)) = k"
    and "n \<le> length (fst (marchLoop u m initialState))"
  shows "density ((initialState # fst (marchLoop u m initialState)) ! n)
           = 1 - (1 - k * stepLength u m * fogDensityMultiplier u) ^ n"
  using trace_closed_form [OF assms] by (simp add: initialState_def)

theorem constant_density_closed_form_witness:
  "(0.01 :: real) < 0.5
   \<and> length (fst (marchLoop plainFog plainFogInit initialState)) = 2
   \<and> sampleFogDensity plainFog (curPos plainFogInit initialState) = 0.5
   \<and> density ((initialState # fst (marchLoop plainFog plainFogInit initialState)) ! 2)
       = 1 - (1 - 0.5 * 2 * 0.086) ^ 2"
proof -
  have k: "(0.01 :: real) < 0.5" by simp
  have c: "\<forall>i < length (fst (marchLoop plainFog plainFogInit initialState)).
             sampleFogDensity plainFog
               (curPos plainFogInit
                  ((initialState # fst (marchLoop plainFog plainFogInit initialState)) ! i))
             = 0.5"
    by (simp add: plainFog_sample plainFog_curPos)
  have n: "2 \<le> length (fst (marchLoop plainFog plainFogInit initialState))"
    by (simp add: plainFog_length)
  from constant_density_closed_form [OF k c n]
  show ?thesis
    by (simp add: plainFog_length plainFog_sample plainFog_curPos plainFog_stepLength
          plainFog_fields)
qed

text \<open>
  Claim C2, as stated: the accumulated density never decreases and stays in
  \<open>[0, maxDensity]\<close>. Three runs show what fails.
  \<^item> The default configuration with a white noise texture, on the horizontal segment from
    \<open>(0, -20, 0)\<close> to \<open>(9000, -20, 0)\<close>: the first iteration adds
    \<open>1.1852 * 22.5 * 0.086\<close>, and the loop stops with an accumulated density above 2
    while \<open>maxDensity\<close> is 1.
  \<^item> The same with \<open>maxDensity = 3\<close>: the loop goes on from an accumulated density above
    1, where the remaining opacity is negative, and the second iteration lowers the
    accumulated density to a negative value.
  \<^item> A configuration without a minimum step length, a jitter of \<open>-0.05\<close> and the segment
    from \<open>(0, 0, 0)\<close> to \<open>(0.01, 0, 0)\<close>: the step length is negative, and the first
    iteration lowers the accumulated density below 0.
\<close>

theorem density_invariant_fails:
  "clipRayEndpoints brightFog (Vec3 0 (- 20) 0) (Vec3 9000 (- 20) 0)
     = Some (Vec3 0 (- 20) 0, Vec3 9000 (- 20) 0)
   \<and> marchInit brightFog (Vec3 0 (- 20) 0) (Vec3 9000 (- 20) 0) (0, 0) = Some brightFogInit
   \<and> map density (fst (marchLoop brightFog brightFogInit initialState)) = [2.293362]
   \<and> maxDensity brightFog = 1
   \<and> clipRayEndpoints denseFog (Vec3 0 (- 20) 0) (Vec3 9000 (- 20) 0)
     = Some (Vec3 0 (- 20) 0, Vec3 9000 (- 20) 0)
   \<and> marchInit denseFog (Vec3 0 (- 20) 0) (Vec3 9000 (- 20) 0) (0, 0) = Some brightFogInit
   \<and> map density (fst (marchLoop denseFog brightFogInit initialState))
     = [2.293362, - 0.672785263044, 3.163516893381113928]
   \<and> maxDensity denseFog = 3
   \<and> clipRayEndpoints backwardFog (Vec3 0 0 0) (Vec3 0.01 0 0)
     = Some (Vec3 0 0 0, Vec3 0.01 0 0)
   \<and> marchInit backwardFog (Vec3 0 0 0) (Vec3 0.01 0 0) (0, 0) = Some backwardInit
   \<and> stepLength backwardFog backwardInit = - 0.005
   \<and> map density (fst (marchLoop backwardFog backwardInit initialState))
     = [- 0.000215, - 0.000430046225, - 0.000645138684938375]"
  using brightFog_clip brightFogInit brightFog_trace denseFog_clip denseFogInit
    denseFog_trace backwardFog_clip [of "0.01"] backwardInit backward_stepLength
    backward_trace
  by (simp add: brightFog_fields denseFog_fields)

text \<open>
  Claim C2, amended. In a ray integration with \<open>maxDensity \<le> 1.01\<close> in which the increment
  factor \<open>rawDensity * stepLength * fogDensityMultiplier\<close> of every sample that passes the
  \<open>0.01\<close> gate is non-negative, the accumulated density does not decrease in any iteration
  and is never negative; after every iteration but the last it is below
  \<open>maxDensity - 0.01\<close>. The value after the last iteration is not clamped to
  \<open>maxDensity\<close>.
\<close>

theorem density_monotone:
  assumes "maxDensity u \<le> 1.01"
    and "\<forall>i < length (fst (marchLoop u m initialState)).
           0.01 < sampleFogDensity u
                    (curPos m ((initialState # fst (marchLoop u m initialState)) ! i)) \<longrightarrow>
           0 \<le> sampleFogDensity u
                  (curPos m ((initialState # fst (marchLoop u m initialState)) ! i))
                 * stepLength u m * fogDensityMultiplier u"
    and "i < length (fst (marchLoop u m initialState))"
  shows "density ((initialState # fst (marchLoop u m initialState)) ! i)
           \<le> density (fst (marchLoop u m initialState) ! i)
         \<and> 0 \<le> density (fst (marchLoop u m initialState) ! i)
         \<and> (Suc i < length (fst (marchLoop u m initialState))
              \<longrightarrow> density (fst (marchLoop u m initialState) ! i) < maxDensity u - 0.01)"
proof -
  have d0: "0 \<le> density initialState" "density initialState \<le> 1"
    by (simp_all add: initialState_def)
  from trace_density_mono [OF assms(1) d0 assms(2,3)]
  have "0 \<le> density ((initialState # fst (marchLoop u m initialState)) ! i)"
    and "density ((initialState # fst (marchLoop u m initialState)) ! i)
           \<le> density (fst (marchLoop u m initialState) ! i)"
    by simp_all
  moreover from marchLoop_chain [OF assms(3)]
  have "Suc i < length (fst (marchLoop u m initialState))
          \<longrightarrow> density (fst (marchLoop u m initialState) ! i) < maxDensity u - 0.01"
    by simp
  ultimately show ?thesis by simp
qed

theorem density_monotone_witness:
  "maxDensity brightFog \<le> 1.01
   \<and> length (fst (marchLoop brightFog brightFogInit initialState)) = 1
   \<and> sampleFogDensity brightFog (curPos brightFogInit initialState) = 1.1852
   \<and> (0 :: real) \<le> 1.1852 * stepLength brightFog brightFogInit * fogDensityMultiplier brightFog
   \<and> density ((initialState # fst (marchLoop brightFog brightFogInit initialState)) ! 0)
       \<le> density (fst (marchLoop brightFog brightFogInit initialState) ! 0)
   \<and> 0 \<le> density (fst (marchLoop brightFog brightFogInit initialState) ! 0)"
proof -
  have cap: "maxDensity brightFog \<le> 1.01" by (simp add: brightFog_fields)
  have c: "\<forall>i < length (fst (marchLoop brightFog brightFogInit initialState)).
             0.01 < sampleFogDensity brightFog
                      (curPos brightFogInit
                         ((initialState # fst (marchLoop brightFog brightFogInit initialState))
                            ! i)) \<longrightarrow>
             0 \<le> sampleFogDensity brightFog
                    (curPos brightFogInit
                       ((initialState # fst (marchLoop brightFog brightFogInit initialState))
                          ! i))
                   * stepLength brightFog brightFogInit * fogDensityMultiplier brightFog"
    by (simp add: brightFog_sample brightFog_curPos brightFog_stepLength brightFog_fields)
  have i: "0 < length (fst (marchLoop brightFog brightFogInit initialState))"
    by (simp add: brightFog_length)
  from density_monotone [OF cap c i]
  show ?thesis
    by (simp add: brightFog_length brightFog_sample brightFog_curPos brightFog_stepLength
          brightFog_fields)
qed

text \<open>
  Claim C4, as stated: the cap on the ray length is computed from the length of the segment
  before slab clipping. It fails for the default configuration and the segment from
  \<open>(0, 10, 0)\<close> to \<open>(0, -50, 0)\<close>, of length 60: \<open>march\<close> runs with the locals computed
  from the clipped segment, of length 44.4, and the cap is \<open>300 + 8.88\<close> instead of
  \<open>300 + 12\<close>.
\<close>

theorem maxRayLength_not_from_unclipped:
  "clipRayEndpoints defaultUniforms (Vec3 0 10 0) (Vec3 0 (- 50) 0)
     = Some (Vec3 0 4.4 0, Vec3 0 (- 40) 0)
   \<and> marchInit defaultUniforms (Vec3 0 4.4 0) (Vec3 0 (- 40) 0) (0, 0) = Some defaultInit
   \<and> march defaultUniforms (Vec3 0 10 0) (Vec3 0 (- 50) 0) (0, 0)
     = Some (marchFinish defaultUniforms defaultInit)
   \<and> maxRayLength defaultInit = 308.88
   \<and> baseMaxRayLength defaultUniforms
       + min (length_vec3 (vsub (Vec3 0 (- 50) 0) (Vec3 0 10 0)) * 0.2) 1500 = 312"
proof -
  have "Vec3 0 4.4 0 \<noteq> Vec3 0 (- 40) 0" by simp
  from march_after_clip [OF clip_example this, of "(0, 0)"] defaultInit
  have "march defaultUniforms (Vec3 0 10 0) (Vec3 0 (- 50) 0) (0, 0)
          = Some (marchFinish defaultUniforms defaultInit)" by simp
  then show ?thesis
    using clip_example defaultInit
    by (simp add: defaultInit_def defaultUniforms_def vsub_def length_vec3_axis_y)
qed

text \<open>
  Claim C4, amended. \<open>march\<close> clips the segment first and computes its locals from the
  clipped endpoints: the cap on the ray length is
  \<open>baseMaxRayLength + min (L * 0.2) 1500\<close> where \<open>L\<close> is the length of the segment
  after slab clipping (and before the cap is applied), and the marched ray length is
  \<open>L\<close> clamped to this cap. The result of \<open>march\<close> is that of the loop and the shaping
  run with these locals, and it is the same for the segment and for its clipped segment.
\<close>

theorem maxRayLength_from_clipped:
  assumes "clipRayEndpoints u s e = Some (s', e')" and "marchInit u s' e' sc = Some m"
  shows "march u s e sc = Some (marchFinish u m)
         \<and> march u s' e' sc = Some (marchFinish u m)
         \<and> maxRayLength m = baseMaxRayLength u + min (length_vec3 (vsub e' s') * 0.2) 1500
         \<and> rayLength m = min (length_vec3 (vsub e' s')) (maxRayLength m)"
proof -
  from assms(2) have ne: "s' \<noteq> e'" by (rule marchInit_distinct)
  from assms(1) have fixed: "clipRayEndpoints u s' e' = Some (s', e')"
    by (intro clip_fixed clip_collapsed_or_within)
  from march_after_clip [OF assms(1) ne, of sc] assms(2)
  have "march u s e sc = Some (marchFinish u m)" by simp
  moreover from march_after_clip [OF fixed ne, of sc] assms(2)
  have "march u s' e' sc = Some (marchFinish u m)" by simp
  ultimately show ?thesis using marchInit_lengths [OF assms(2)] by simp
qed

theorem maxRayLength_from_clipped_witness:
  "clipRayEndpoints defaultUniforms (Vec3 0 10 0) (Vec3 0 (- 50) 0)
     = Some (Vec3 0 4.4 0, Vec3 0 (- 40) 0)
   \<and> marchInit defaultUniforms (Vec3 0 4.4 0) (Vec3 0 (- 40) 0) (0, 0) = Some defaultInit
   \<and> march defaultUniforms (Vec3 0 10 0) (Vec3 0 (- 50) 0) (0, 0)
     = Some (marchFinish defaultUniforms defaultInit)
   \<and> march defaultUniforms (Vec3 0 4.4 0) (Vec3 0 (- 40) 0) (0, 0)
     = Some (marchFinish defaultUniforms defaultInit)
   \<and> maxRayLength defaultInit
       = baseMaxRayLength defaultUniforms
         + min (length_vec3 (vsub (Vec3 0 (- 40) 0) (Vec3 0 4.4 0)) * 0.2) 1500
   \<and> rayLength defaultInit
       = min (length_vec3 (vsub (Vec3 0 (- 40) 0) (Vec3 0 4.4 0))) (maxRayLength defaultInit)"
  using maxRayLength_from_clipped [OF clip_example defaultInit] clip_example defaultInit
  by simp

text \<open>
  Claim C5: the number of loop iterations never exceeds \<open>maxRaymarchStepCount\<close>. The
  code runs one more: the safety check \<open>totalIters > maxRaymarchStepCount\<close> is made
  before the counter is incremented. With \<open>maxRaymarchStepCount = baseRaymarchStepCount = 2\<close>
  and a jitter of \<open>-0.05\<close>, on the segment from \<open>(0, 0, 0)\<close> to \<open>(4, 0, 0)\<close> the loop
  completes three iterations and leaves through its loop condition.
\<close>

theorem three_iterations_with_cap_two:
  "clipRayEndpoints jitterFog (Vec3 0 0 0) (Vec3 4 0 0) = Some (Vec3 0 0 0, Vec3 4 0 0)
   \<and> marchInit jitterFog (Vec3 0 0 0) (Vec3 4 0 0) (0, 0) = Some jitterFogInit
   \<and> maxRaymarchStepCount jitterFog = 2
   \<and> map totalIters (fst (marchLoop jitterFog jitterFogInit initialState)) = [1, 2, 3]
   \<and> snd (marchLoop jitterFog jitterFogInit initialState) = Exhausted"
  using jitterFog_clip [of 4] jitterFogInit jitterFog_trace
  by (simp add: jitterFog_fields)

text \<open>
  Claim C6, as stated: every step length is at least \<open>minStepLength\<close>. It fails when the
  jitter is negative and the base step length is below \<open>minStepLength\<close>: with a
  blue-noise sample of 0 and the segment from \<open>(0, 0, 0)\<close> to \<open>(0.2, 0, 0)\<close> both
  iterations advance by \<open>0.19\<close> while \<open>minStepLength\<close> is \<open>0.2\<close>.
\<close>

theorem step_below_minStepLength:
  "clipRayEndpoints jitterFog (Vec3 0 0 0) (Vec3 0.2 0 0) = Some (Vec3 0 0 0, Vec3 0.2 0 0)
   \<and> marchInit jitterFog (Vec3 0 0 0) (Vec3 0.2 0 0) (0, 0) = Some shortRayInit
   \<and> map totalDistance (fst (marchLoop jitterFog shortRayInit initialState)) = [0.19, 0.38]
   \<and> stepLength jitterFog shortRayInit = 0.19
   \<and> minStepLength jitterFog = 0.2"
  using jitterFog_clip [of "0.2"] shortRayInit shortRay_trace shortRay_stepLength
  by (simp add: jitterFog_fields)

text \<open>
  Claim C6, amended. In every iteration the distance advances by
  \<open>max baseStepLength minStepLength + jitter * 0.2\<close> with
  \<open>jitter = (blueNoiseSample - 0.5) * 0.1\<close>. For a blue-noise sample in \<open>[0, 1]\<close> this
  step length is at least \<open>minStepLength - 0.01\<close>, and at least \<open>minStepLength\<close> when
  the sample is at least \<open>0.5\<close>.
\<close>

theorem step_length_lower_bound:
  assumes "marchInit u s e sc = Some m" and "blueNoiseSample u sc = Some b"
    and "0 \<le> b" and "b \<le> 1"
    and "i < length (fst (marchLoop u m initialState))"
  shows "totalDistance (fst (marchLoop u m initialState) ! i)
           - totalDistance ((initialState # fst (marchLoop u m initialState)) ! i)
           = max (baseStepLength m) (minStepLength u) + (b - 0.5) * 0.1 * 0.2
         \<and> minStepLength u - 0.01
             \<le> totalDistance (fst (marchLoop u m initialState) ! i)
               - totalDistance ((initialState # fst (marchLoop u m initialState)) ! i)
         \<and> (0.5 \<le> b \<longrightarrow>
              minStepLength u
                \<le> totalDistance (fst (marchLoop u m initialState) ! i)
                  - totalDistance ((initialState # fst (marchLoop u m initialState)) ! i))"
proof -
  define M where "M = max (baseStepLength m) (minStepLength u)"
  from marchInit_jitter [OF assms(1,2)] have j: "jitter m = (b - 0.5) * 0.1" .
  from trace_advance [OF assms(5)]
  have "totalDistance (fst (marchLoop u m initialState) ! i)
          - totalDistance ((initialState # fst (marchLoop u m initialState)) ! i)
          = stepLength u m" by simp
  then have eq: "totalDistance (fst (marchLoop u m initialState) ! i)
          - totalDistance ((initialState # fst (marchLoop u m initialState)) ! i)
          = M + (b - 0.5) * 0.1 * 0.2"
    by (simp add: stepLength_def j M_def)
  have ge: "minStepLength u \<le> M" by (simp add: M_def)
  have lo: "minStepLength u - 0.01 \<le> M + (b - 0.5) * 0.1 * 0.2"
    using ge assms(3) by (rule jitter_step_lower)
  have hi: "0.5 \<le> b \<longrightarrow> minStepLength u \<le> M + (b - 0.5) * 0.1 * 0.2"
    using ge by (blast intro: jitter_step_nonneg)
  show ?thesis unfolding eq using lo hi by (simp add: M_def)
qed

theorem step_length_lower_bound_witness:
  "marchInit plainFog (Vec3 0 0 0) (Vec3 4 0 0) (0, 0) = Some plainFogInit
   \<and> blueNoiseSample plainFog (0, 0) = Some 0.5
   \<and> length (fst (marchLoop plainFog plainFogInit initialState)) = 2
   \<and> totalDistance (fst (marchLoop plainFog plainFogInit initialState) ! 1)
       - totalDistance ((initialState # fst (marchLoop plainFog plainFogInit initialState)) ! 1)
       = max (baseStepLength plainFogInit) (minStepLength plainFog) + (0.5 - 0.5) * 0.1 * 0.2
   \<and> minStepLength plainFog
       \<le> totalDistance (fst (marchLoop plainFog plainFogInit initialState) ! 1)
         - totalDistance ((initialState # fst (marchLoop plainFog plainFogInit initialState)) ! 1)"
proof -
  have b: "(0 :: real) \<le> 0.5" "(0.5 :: real) \<le> 1" by simp_all
  have i: "1 < length (fst (marchLoop plainFog plainFogInit initialState))"
    by (simp add: plainFog_length)
  from step_length_lower_bound [OF plainFogInit plainFog_blueNoise b i]
  show ?thesis by (simp add: plainFogInit plainFog_blueNoise plainFog_length)
qed

text \<open>
  Claim C9, as stated, assumes only \<open>fogFadeOutRangeY > 0\<close>. Its second half fails for
  \<open>fogFadeOutPow = 0\<close>: at height 0, below the fade-out band, \<open>smoothstep\<close> is 0 and the
  fade-out factor is \<open>1 - pow(0, 0)\<close>, which is 0 on a platform where \<open>pow(0, 0)\<close> is 1.
\<close>

theorem fade_out_factor_zero_below_band:
  "0 < fogFadeOutRangeY flatFade
   \<and> 0 \<le> fogMaxY flatFade - fogFadeOutRangeY flatFade
   \<and> computeFadeOutYFactor flatFade 0 = 0
   \<and> computeFadeOutYFactor flatFade 0 \<noteq> 1"
  by (simp add: computeFadeOutYFactor_def flatFade_def defaultUniforms_def clamp_def pow_def
        smoothstep_def Let_def)

text \<open>
  Claim C9, amended. Assuming \<open>fogFadeOutRangeY > 0\<close>: at every position with
  \<open>y \<ge> fogMaxY\<close> the fade-out factor is 0 and \<open>sampleFogDensity\<close> returns 0; assuming
  also \<open>fogFadeOutPow > 0\<close>, at every height \<open>y \<le> fogMaxY - fogFadeOutRangeY\<close> the
  fade-out factor is 1. (The wind drift does not change the y coordinate.)
\<close>

theorem fade_out_factor_ends:
  assumes "0 < fogFadeOutRangeY u"
  shows "(fogMaxY u \<le> vy p \<longrightarrow>
            computeFadeOutYFactor u (vy p) = 0 \<and> sampleFogDensity u p = 0)
         \<and> (0 < fogFadeOutPow u \<longrightarrow> y \<le> fogMaxY u - fogFadeOutRangeY u \<longrightarrow>
              computeFadeOutYFactor u y = 1)"
  using assms by (simp add: fade_above fade_below sample_above)

theorem fade_out_factor_ends_witness:
  "0 < fogFadeOutRangeY defaultUniforms
   \<and> fogMaxY defaultUniforms \<le> vy (Vec3 0 10 0)
   \<and> computeFadeOutYFactor defaultUniforms (vy (Vec3 0 10 0)) = 0
   \<and> sampleFogDensity defaultUniforms (Vec3 0 10 0) = 0
   \<and> 0 < fogFadeOutPow defaultUniforms
   \<and> 0 \<le> fogMaxY defaultUniforms - fogFadeOutRangeY defaultUniforms
   \<and> computeFadeOutYFactor defaultUniforms 0 = 1"
proof -
  have r: "0 < fogFadeOutRangeY defaultUniforms" by (simp add: defaultUniforms_def)
  from fade_out_factor_ends [OF r, of "Vec3 0 10 0" 0]
  show ?thesis by (simp add: defaultUniforms_def)
qed

end
